theory Spec2Isabelle
  imports Complex_Main
begin

section \<open>JavaScript values used by the viewer plugin\<close>

text \<open>
  The viewer plugin works on untyped upstream payloads. The embedding gives every payload
  the shape the plugin destructures. A field is an \<open>option\<close> exactly where the source
  guards it or the value computed from it (\<open>?.\<close>, \<open>||\<close>, \<open>x ? a : b\<close>);
  \<open>None\<close> stands for \<open>undefined\<close> or \<open>null\<close>, which those guards do not tell
  apart. The one field on which the two differ is the denominator of the season win
  ratio, where the division converts \<open>undefined\<close> to NaN and \<open>null\<close> to 0: it is
  a \<open>nullable\<close>. Every other field is present and has the type the plugin uses it
  at. An object with arbitrary keys (the season
  snapshot) is a list of key/value pairs with distinct keys. Exceptions and rejected
  promises are values of type \<open>error\<close> on the left of a sum.

  Numbers that the plugin only adds or multiplies are integers. The one division
  (the season win ratio) produces a JavaScript number, modelled with exact rationals
  and the special values \<open>NaN\<close> and the two infinities; binary rounding of the
  quotient and negative zero are not modelled.
\<close>

datatype error = TypeError | SyntaxError | UpstreamFailure | CacheFailure | StoreFailure

datatype number = Finite rat | NaN | PosInfinity | NegInfinity

datatype 'a nullable = Missing | Null | Present 'a

definition andThen :: "error + 'a \<Rightarrow> ('a \<Rightarrow> error + 'b) \<Rightarrow> error + 'b" where
  "andThen m f = (case m of Inl e \<Rightarrow> Inl e | Inr x \<Rightarrow> f x)"

text \<open>Reading a property of \<open>undefined\<close> raises a TypeError.\<close>

definition required :: "'a option \<Rightarrow> error + 'a" where
  "required x = (case x of None \<Rightarrow> Inl TypeError | Some v \<Rightarrow> Inr v)"

text \<open>\<open>String.prototype.toLowerCase\<close> on the ASCII letters; other bytes are unchanged.\<close>

definition toLowerCase_char :: "char \<Rightarrow> char" where
  "toLowerCase_char c =
     (let n = (of_char c :: nat) in if 65 \<le> n \<and> n \<le> 90 then char_of (n + 32) else c)"

definition toLowerCase :: "string \<Rightarrow> string" where
  "toLowerCase s = map toLowerCase_char s"

text \<open>\<open>Array.prototype.indexOf\<close>: the first position of the element, or \<open>-1\<close>.\<close>

fun indexOf :: "'a list \<Rightarrow> 'a \<Rightarrow> int" where
  "indexOf [] x = - 1"
| "indexOf (y # ys) x =
     (if y = x then 0 else (let i = indexOf ys x in if i < 0 then - 1 else i + 1))"

text \<open>\<open>String.prototype.split\<close> with a one-character separator.\<close>

fun split :: "char \<Rightarrow> string \<Rightarrow> string list" where
  "split sep [] = [[]]"
| "split sep (c # cs) =
     (if c = sep then [] # split sep cs
      else (case split sep cs of [] \<Rightarrow> [[c]] | w # ws \<Rightarrow> (c # w) # ws))"

text \<open>Truthiness of an optional string: absent and the empty string are falsy.\<close>

definition truthy :: "string option \<Rightarrow> bool" where
  "truthy x = (case x of None \<Rightarrow> False | Some s \<Rightarrow> s \<noteq> [])"

text \<open>
  The division operator on numbers. Its divisor is converted to a number first:
  \<open>undefined\<close> to NaN and \<open>null\<close> to 0.
\<close>

definition ToNumber :: "int nullable \<Rightarrow> number" where
  "ToNumber x =
     (case x of Missing \<Rightarrow> NaN | Null \<Rightarrow> Finite 0 | Present n \<Rightarrow> Finite (of_int n))"

fun js_divide :: "number \<Rightarrow> number \<Rightarrow> number" where
  "js_divide (Finite a) (Finite b) =
     (if b = 0 then (if a = 0 then NaN else if 0 < a then PosInfinity else NegInfinity)
      else Finite (a / b))"
| "js_divide NaN _ = NaN"
| "js_divide _ NaN = NaN"
| "js_divide (Finite a) _ = Finite 0"
| "js_divide PosInfinity (Finite b) = (if b < 0 then NegInfinity else PosInfinity)"
| "js_divide NegInfinity (Finite b) = (if b < 0 then PosInfinity else NegInfinity)"
| "js_divide _ _ = NaN"

text \<open>\<open>Math.round\<close>: the nearest integer, ties towards positive infinity.\<close>

definition Math_round :: "number \<Rightarrow> number" where
  "Math_round x = (case x of Finite q \<Rightarrow> Finite (of_int \<lfloor>q + 1 / 2\<rfloor>) | _ \<Rightarrow> x)"

text \<open>\<open>x || 0\<close> on a number: NaN and zero are falsy.\<close>

definition or_zero :: "number \<Rightarrow> number" where
  "or_zero x = (if x = NaN \<or> x = Finite 0 then Finite 0 else x)"

section \<open>Upstream payloads\<close>

record 'a apiData =
  data :: 'a

record PlayerObject =
  regionId :: int
  realmId :: int
  profileId :: int

record summary =
  summary_portrait :: string
  summary_clanName :: string
  summary_clanTag :: string
  summary_displayName :: string

record leagueFinish =
  leagueName :: "string option"

record career =
  current1v1LeagueName :: "string option"
  currentBestTeamLeagueName :: "string option"
  totalCareerGames :: "int option"
  best1v1Finish :: "leagueFinish option"
  bestTeamFinish :: "leagueFinish option"

record gameModeSnapshot =
  totalWins :: int

record snapshot =
  seasonSnapshot :: "(string \<times> gameModeSnapshot) list"
  totalRankedSeasonGamesPlayed :: "int nullable"

record profileData =
  profile_summary :: summary
  profile_career :: "career option"
  profile_snapshot :: "snapshot option"

record matchObject =
  match_map :: string
  match_type :: string
  match_decision :: string
  match_date :: int

record matchHistoryData =
  matches :: "matchObject list"

record ladderMembership =
  ladderId :: int

record ladderSummaryData =
  allLadderMemberships :: "ladderMembership list"

record teamMember =
  member_id :: int
  member_displayName :: string
  member_favoriteRace :: string

record ladderTeam =
  team_wins :: int
  team_losses :: int
  team_teamMembers :: "teamMember list"

record rankAndPool =
  pool_rank :: int
  pool_mmr :: int

record currentMembership =
  localizedGameMode :: string

record ladderData =
  ladderTeams :: "ladderTeam list"
  ranksAndPools :: "rankAndPool list"
  currentLadderMembership :: currentMembership

section \<open>The viewer payload\<close>

record portrait =
  portrait_url :: string
  portrait_frame :: string

record clan =
  clan_name :: string
  clan_tag :: string

record player =
  player_clan :: clan
  player_name :: string
  player_server :: "string option"

record heading =
  heading_portrait :: portrait
  heading_player :: player

record stats =
  stats_totalCareerGames :: int
  stats_totalRankedGamesThisSeason :: "int nullable"
  stats_seasonWinRatio :: number
  stats_highestSoloRank :: string
  stats_highestTeamRank :: string

record ladderResult =
  result_mode :: string
  result_rank :: string
  result_wins :: int
  result_losses :: int
  result_race :: string
  result_mmr :: int
  result_divisionRank :: int
  result_teamMembers :: "string list"

record matchRecord =
  mapName :: string
  mode :: string
  result :: string
  date :: int

record details =
  details_snapshot :: "ladderResult list"
  details_stats :: stats
  details_history :: "matchRecord list"

section \<open>Pure transformations of the viewer plugin\<close>

definition ranks :: "string list" where
  "ranks = [''bronze'', ''silver'', ''gold'', ''platinum'', ''diamond'', ''master'',
            ''grandmaster'']"

definition calculateHighestRank :: "string option \<Rightarrow> string option \<Rightarrow> string" where
  "calculateHighestRank soloRank teamRank =
     (let soloRankIndex =
            (case soloRank of
               Some s \<Rightarrow> if s \<noteq> [] then indexOf ranks (toLowerCase s) else - 1
             | None \<Rightarrow> - 1);
          teamRankIndex =
            (case teamRank of
               Some t \<Rightarrow> if t \<noteq> [] then indexOf ranks (toLowerCase t) else - 1
             | None \<Rightarrow> - 1)
      in if soloRankIndex > teamRankIndex
         then (case soloRank of
                 Some s \<Rightarrow> if s \<noteq> [] then toLowerCase s else []
               | None \<Rightarrow> [])
         else (case teamRank of
                 Some t \<Rightarrow> if t \<noteq> [] then toLowerCase t else []
               | None \<Rightarrow> []))"

text \<open>
  \<open>reduce\<close> without an initial value raises a TypeError on an empty array, and otherwise
  folds from the first element.
\<close>

definition calculateWins :: "(string \<times> gameModeSnapshot) list \<Rightarrow> error + int" where
  "calculateWins seasonSnapshot' =
     (case map (\<lambda>(gameMode, s). totalWins s) seasonSnapshot' of
        [] \<Rightarrow> Inl TypeError
      | v # vs \<Rightarrow> Inr (foldl (\<lambda>sum' value. sum' + value) v vs))"

definition calculateSeasonWinRatio :: "snapshot option \<Rightarrow> error + number" where
  "calculateSeasonWinRatio apiData =
     andThen (required apiData) (\<lambda>s.
     andThen (calculateWins (seasonSnapshot s)) (\<lambda>wins.
       let totalGames = totalRankedSeasonGamesPlayed s
       in Inr (Math_round (js_divide (Finite (of_int (wins * 100))) (ToNumber totalGames)))))"

definition getHeading :: "profileData apiData \<Rightarrow> string option \<Rightarrow> error + heading" where
  "getHeading apiData regionName =
     (let summary' = profile_summary (data apiData);
          career' = profile_career (data apiData)
      in andThen (required career') (\<lambda>c.
           Inr \<lparr>heading_portrait =
                  \<lparr>portrait_url = summary_portrait summary',
                   portrait_frame =
                     calculateHighestRank (current1v1LeagueName c)
                       (currentBestTeamLeagueName c)\<rparr>,
                heading_player =
                  \<lparr>player_clan =
                     \<lparr>clan_name = summary_clanName summary',
                      clan_tag = summary_clanTag summary'\<rparr>,
                   player_name = summary_displayName summary',
                   player_server = regionName\<rparr>\<rparr>))"

text \<open>\<open>career?.best1v1Finish?.leagueName?.toLowerCase() || ''\<close>\<close>

definition finishRank :: "career option \<Rightarrow> (career \<Rightarrow> leagueFinish option) \<Rightarrow> string" where
  "finishRank career' finish =
     (case career' of
        None \<Rightarrow> []
      | Some c \<Rightarrow>
          (case finish c of
             None \<Rightarrow> []
           | Some f \<Rightarrow> (case leagueName f of None \<Rightarrow> [] | Some l \<Rightarrow> toLowerCase l)))"

definition getStats :: "profileData apiData \<Rightarrow> error + stats" where
  "getStats apiData =
     (let snapshot' = profile_snapshot (data apiData);
          career' = profile_career (data apiData)
      in andThen (calculateSeasonWinRatio snapshot') (\<lambda>ratio.
           Inr \<lparr>stats_totalCareerGames =
                  (case career' of
                     None \<Rightarrow> 0
                   | Some c \<Rightarrow> (case totalCareerGames c of None \<Rightarrow> 0 | Some n \<Rightarrow> n)),
                stats_totalRankedGamesThisSeason =
                  (case snapshot' of
                     None \<Rightarrow> Missing
                   | Some s \<Rightarrow> totalRankedSeasonGamesPlayed s),
                stats_seasonWinRatio = or_zero ratio,
                stats_highestSoloRank = finishRank career' best1v1Finish,
                stats_highestTeamRank = finishRank career' bestTeamFinish\<rparr>))"

definition getMatchHistory :: "matchHistoryData apiData \<Rightarrow> matchRecord list" where
  "getMatchHistory apiData =
     (let data' = matches (data apiData);
          filteredMatchHistory = filter (\<lambda>match. match_type match \<noteq> ''Custom'') data'
      in map (\<lambda>matchObject.
                \<lparr>mapName = match_map matchObject,
                 mode = match_type matchObject,
                 result = toLowerCase (match_decision matchObject),
                 date = match_date matchObject * 1000\<rparr>)
           filteredMatchHistory)"

text \<open>
  Indexing an array: \<open>xs[i]\<close> is \<open>undefined\<close> out of range.
\<close>

definition element :: "'a list \<Rightarrow> nat \<Rightarrow> 'a option" where
  "element xs i = (if i < length xs then Some (xs ! i) else None)"

text \<open>
  Destructuring \<open>ranksAndPools[0]\<close> or the first matching ladder team raises a TypeError
  when there is none, and so does \<open>toLowerCase\<close> on a missing word of the localized
  game mode.
\<close>

definition getPlayerLadderInfo :: "ladderData apiData \<Rightarrow> int \<Rightarrow> error + ladderResult" where
  "getPlayerLadderInfo apiData profileId' =
     (let ladderTeams' = ladderTeams (data apiData);
          ranksAndPools' = ranksAndPools (data apiData);
          currentLadderMembership' = currentLadderMembership (data apiData)
      in andThen (required (element ranksAndPools' 0)) (\<lambda>pool.
         let localizedGameMode' = split (CHR '' '') (localizedGameMode currentLadderMembership')
         in andThen (required (element localizedGameMode' 0)) (\<lambda>word0.
            let mode' = toLowerCase word0
            in andThen (required (element localizedGameMode' 1)) (\<lambda>word1.
               andThen (if toLowerCase word1 = ''random''
                        then andThen (required (element localizedGameMode' 2))
                               (\<lambda>word2. Inr (toLowerCase word2))
                        else Inr (toLowerCase word1)) (\<lambda>rankName.
               andThen (required (element
                          (filter (\<lambda>ladderTeam.
                                     list_ex (\<lambda>teamMember. member_id teamMember = profileId')
                                       (team_teamMembers ladderTeam))
                             ladderTeams') 0)) (\<lambda>playerLadderData.
               let teamMemberNames = map member_displayName (team_teamMembers playerLadderData)
               in andThen (required (element
                             (filter (\<lambda>teamMember. member_id teamMember = profileId')
                                (team_teamMembers playerLadderData)) 0)) (\<lambda>self.
                  Inr \<lparr>result_mode = mode',
                       result_rank = rankName,
                       result_wins = team_wins playerLadderData,
                       result_losses = team_losses playerLadderData,
                       result_race = member_favoriteRace self,
                       result_mmr = pool_mmr pool,
                       result_divisionRank = pool_rank pool,
                       result_teamMembers = teamMemberNames\<rparr>)))))))"

section \<open>The world the plugin acts on\<close>

text \<open>
  Asynchronous code is modelled by explicit state passing. A \<open>job\<close> is an async
  computation: it takes the world and returns the world it leaves together with the
  outcome of its promise, \<open>Inl\<close> for a rejection and \<open>Inr\<close> for a fulfilment.
  \<open>awaitThen m f\<close> is \<open>const x = await m; f x\<close>.

  The world holds a clock in milliseconds, the Redis store with the expiry time of each
  key, the store after every write command (the states another Redis client can observe
  between two commands of this one), the upstream calls issued with the clock value at
  which each was issued, the log, and the timers scheduled with \<open>setTimeout\<close>.
  The upstream client answers a request with a fixed response or failure; network
  latency is not modelled, so the clock advances only when a job waits for a timer.

  Jobs started together by \<open>Promise.all\<close> are run one after the other in list order.
  All of them run, whether or not one rejects, and the result is the list of their
  values or the first rejection in list order. The interleaving of concurrent jobs is
  not modelled; the properties proved below do not depend on it.
\<close>

datatype sasCall =
    GetProfile PlayerObject
  | GetLegacyMatchHistory PlayerObject
  | GetLadderSummary PlayerObject
  | GetLadder PlayerObject int

datatype logEntry = Sleeping nat

text \<open>
  What \<open>await\<close> may be handed by \<open>sleep\<close>: the value \<open>undefined\<close>, or a promise that
  is resolved by a timer after the given number of milliseconds.
\<close>

datatype awaitable = Undefined | Timeout nat

text \<open>
  The result for one profile is the payload object or the empty object \<open>{}\<close> of the
  \<open>catch\<close> branch. The batch result is \<open>{profiles: [...]}\<close> or the empty array of the
  \<open>catch\<close> branch. \<open>getData\<close> returns the decoded cache entry or the batch result.
\<close>

datatype viewerProfile = Payload heading details | EmptyObject

datatype freshData = ProfilesObject "viewerProfile list" | EmptyArray

datatype 'j viewerData = Decoded 'j | Fresh freshData

type_synonym redisStore = "string \<Rightarrow> (string \<times> nat option) option"

record world =
  now :: nat
  redis_up :: bool
  redis :: redisStore
  redis_history :: "redisStore list"
  sas_calls :: "(nat \<times> sasCall) list"
  log_info :: "logEntry list"
  timers :: "nat list"

text \<open>
  What the plugin closes over: whether the Redis decorator is present, its \<open>ttl\<close>
  option in seconds, the four operations of the upstream client, the region lookup of
  the StarCraft2API library, and \<open>JSON.stringify\<close> and \<open>JSON.parse\<close>. The upstream
  client, the library and the JSON codec are not part of the sources and are parameters.
\<close>

record 'j server =
  cacheActive :: bool
  ttl :: nat
  sas_getProfile :: "PlayerObject \<Rightarrow> error + profileData apiData"
  sas_getLegacyMatchHistory :: "PlayerObject \<Rightarrow> error + matchHistoryData apiData"
  sas_getLadderSummary :: "PlayerObject \<Rightarrow> error + ladderSummaryData apiData"
  sas_getLadder :: "PlayerObject \<Rightarrow> int \<Rightarrow> error + ladderData apiData"
  getRegionNameById :: "int \<Rightarrow> error + string list"
  stringify :: "freshData \<Rightarrow> string"
  parse :: "string \<Rightarrow> error + 'j"

record getDataParams =
  channelId :: string
  profiles :: "PlayerObject list"
  refresh :: "bool option"

type_synonym 'a job = "world \<Rightarrow> (error + 'a) \<times> world"

definition resolve :: "'a \<Rightarrow> 'a job" where
  "resolve x w = (Inr x, w)"

definition settle :: "error + 'a \<Rightarrow> 'a job" where
  "settle r w = (r, w)"

definition awaitThen :: "'a job \<Rightarrow> ('a \<Rightarrow> 'b job) \<Rightarrow> 'b job" where
  "awaitThen m f w = (case m w of (Inl e, w') \<Rightarrow> (Inl e, w') | (Inr x, w') \<Rightarrow> f x w')"

text \<open>\<open>Promise.all\<close> over jobs that have all been started.\<close>

fun Promise_all :: "'a job list \<Rightarrow> 'a list job" where
  "Promise_all [] w = (Inr [], w)"
| "Promise_all (j # js) w =
     (case j w of (r, w1) \<Rightarrow>
        (case Promise_all js w1 of (rs, w2) \<Rightarrow>
           (case r of
              Inl e \<Rightarrow> (Inl e, w2)
            | Inr x \<Rightarrow> (case rs of Inl e \<Rightarrow> (Inl e, w2) | Inr xs \<Rightarrow> (Inr (x # xs), w2)))))"

section \<open>Redis commands\<close>

text \<open>
  A key is visible to \<open>GET\<close> while it has no expiry time or the clock is before it.
  \<open>SET\<close> stores the value and clears the expiry time; \<open>EXPIRE\<close> sets the expiry time
  of a visible key to the given number of seconds from now. Every command rejects when
  the connection is down.
\<close>

definition live :: "nat \<Rightarrow> nat option \<Rightarrow> bool" where
  "live t expiry = (case expiry of None \<Rightarrow> True | Some e \<Rightarrow> t < e)"

definition redis_lookup :: "world \<Rightarrow> string \<Rightarrow> string option" where
  "redis_lookup w key =
     (case redis w key of
        None \<Rightarrow> None
      | Some (v, expiry) \<Rightarrow> if live (now w) expiry then Some v else None)"

definition redis_get :: "string \<Rightarrow> string option job" where
  "redis_get key w = (if redis_up w then (Inr (redis_lookup w key), w) else (Inl CacheFailure, w))"

definition redis_write :: "redisStore \<Rightarrow> world \<Rightarrow> world" where
  "redis_write store w = w\<lparr>redis := store, redis_history := redis_history w @ [store]\<rparr>"

definition redis_set :: "string \<Rightarrow> string \<Rightarrow> unit job" where
  "redis_set key v w =
     (if redis_up w then (Inr (), redis_write ((redis w)(key \<mapsto> (v, None))) w)
      else (Inl CacheFailure, w))"

definition redis_expire :: "string \<Rightarrow> nat \<Rightarrow> unit job" where
  "redis_expire key seconds w =
     (if redis_up w
      then (case redis_lookup w key of
              None \<Rightarrow> (Inr (), w)
            | Some v \<Rightarrow>
                (Inr (), redis_write ((redis w)(key \<mapsto> (v, Some (now w + seconds * 1000)))) w))
      else (Inl CacheFailure, w))"

section \<open>The viewer plugin\<close>

text \<open>An upstream call is recorded with the time at which it is issued.\<close>

definition sas :: "sasCall \<Rightarrow> error + 'a \<Rightarrow> 'a job" where
  "sas call response w = (response, w\<lparr>sas_calls := sas_calls w @ [(now w, call)]\<rparr>)"

text \<open>
  \<open>JSON.parse\<close> converts \<open>null\<close> to the text \<open>null\<close> and raises a SyntaxError on the
  empty string; every other text is left to the parameter.
\<close>

definition JSON_parse :: "'j server \<Rightarrow> string option \<Rightarrow> error + 'j" where
  "JSON_parse srv text =
     (case text of
        None \<Rightarrow> parse srv ''null''
      | Some s \<Rightarrow> if s = [] then Inl SyntaxError else parse srv s)"

definition isDataCached :: "'j server \<Rightarrow> string \<Rightarrow> bool job" where
  "isDataCached srv segment =
     (if cacheActive srv
      then awaitThen (redis_get segment) (\<lambda>v. resolve (if truthy v then True else False))
      else resolve False)"

definition cacheObject :: "'j server \<Rightarrow> string \<Rightarrow> freshData \<Rightarrow> nat \<Rightarrow> string job" where
  "cacheObject srv segment data' ttl' =
     (if \<not> cacheActive srv then resolve ''Object not cached (Cache disabled)''
      else awaitThen (redis_set segment (stringify srv data')) (\<lambda>_.
           awaitThen (redis_expire segment ttl') (\<lambda>_.
           resolve ''Object cached successfully'')))"

definition getCachedObject :: "'j server \<Rightarrow> string \<Rightarrow> string option job" where
  "getCachedObject srv segment =
     (if cacheActive srv then redis_get segment else resolve (Some ''{}''))"

text \<open>
  \<open>sleep\<close> writes the log line, creates a promise around \<open>setTimeout\<close>, and returns
  nothing: its body is a block without a \<open>return\<close>. Awaiting \<open>undefined\<close> continues
  without waiting for any timer; awaiting a timer promise would advance the clock.
\<close>

definition sleep :: "nat \<Rightarrow> world \<Rightarrow> awaitable \<times> world" where
  "sleep ms w =
     (Undefined, w\<lparr>log_info := log_info w @ [Sleeping ms], timers := timers w @ [now w + ms]\<rparr>)"

definition await :: "awaitable \<Rightarrow> unit job" where
  "await v w = (case v of Undefined \<Rightarrow> (Inr (), w) | Timeout ms \<Rightarrow> (Inr (), w\<lparr>now := now w + ms\<rparr>))"

definition await_sleep :: "nat \<Rightarrow> unit job" where
  "await_sleep ms w = (case sleep ms w of (v, w') \<Rightarrow> await v w')"

definition getLadderData :: "'j server \<Rightarrow> PlayerObject \<Rightarrow> int \<Rightarrow> nat \<Rightarrow> ladderResult job" where
  "getLadderData srv profile ladderId' index =
     awaitThen (await_sleep ((index + 1) * 1000)) (\<lambda>_.
     awaitThen (sas (GetLadder profile ladderId') (sas_getLadder srv profile ladderId'))
       (\<lambda>ladderApiData.
     settle (getPlayerLadderInfo ladderApiData (profileId profile))))"

definition getSnapshot ::
  "'j server \<Rightarrow> ladderSummaryData apiData \<Rightarrow> PlayerObject \<Rightarrow> ladderResult list job" where
  "getSnapshot srv apiData profile =
     (let ladderIds = map ladderId (allLadderMemberships (data apiData))
      in Promise_all
           (map (\<lambda>(index, ladderId'). getLadderData srv profile ladderId' index)
              (enumerate 0 ladderIds)))"

text \<open>The body of the \<open>try\<close> block of \<open>getProfileData\<close>, and the function itself.\<close>

definition getProfileData_try :: "'j server \<Rightarrow> PlayerObject \<Rightarrow> nat \<Rightarrow> viewerProfile job" where
  "getProfileData_try srv profile index =
     awaitThen (sas (GetProfile profile) (sas_getProfile srv profile)) (\<lambda>profileData.
     awaitThen (await_sleep ((index + 1) * 1000)) (\<lambda>_.
     awaitThen (sas (GetLegacyMatchHistory profile) (sas_getLegacyMatchHistory srv profile))
       (\<lambda>matchHistoryData.
     awaitThen (await_sleep ((index + 1) * 1000)) (\<lambda>_.
     awaitThen (sas (GetLadderSummary profile) (sas_getLadderSummary srv profile))
       (\<lambda>ladderSummaryData.
     awaitThen (settle (andThen (getRegionNameById srv (regionId profile))
                          (\<lambda>names. Inr (element names 0)))) (\<lambda>regionName.
     awaitThen (settle (getHeading profileData regionName)) (\<lambda>heading'.
     awaitThen (await_sleep ((index + 1) * 1000)) (\<lambda>_.
     awaitThen (getSnapshot srv ladderSummaryData profile) (\<lambda>snapshot'.
     awaitThen (settle (getStats profileData)) (\<lambda>stats'.
     let history = getMatchHistory matchHistoryData
     in resolve (Payload heading'
                  \<lparr>details_snapshot = snapshot', details_stats = stats',
                   details_history = history\<rparr>)))))))))))"

definition getProfileData :: "'j server \<Rightarrow> PlayerObject \<Rightarrow> nat \<Rightarrow> viewerProfile job" where
  "getProfileData srv profile index w =
     (case getProfileData_try srv profile index w of
        (Inl e, w') \<Rightarrow> (Inr EmptyObject, w')
      | (Inr payload, w') \<Rightarrow> (Inr payload, w'))"

text \<open>
  \<open>cacheObject\<close> is called without \<open>await\<close>: its outcome is dropped, and only its
  effect on the store remains.
\<close>

definition getFreshData :: "'j server \<Rightarrow> PlayerObject list \<Rightarrow> string \<Rightarrow> freshData job" where
  "getFreshData srv profiles' cacheSegment w =
     (case Promise_all
             (map (\<lambda>(index, profile). getProfileData srv profile index)
                (enumerate 0 profiles')) w of
        (Inl e, w1) \<Rightarrow> (Inr EmptyArray, w1)
      | (Inr profileData, w1) \<Rightarrow>
          (let w2 = (if cacheActive srv
                     then snd (cacheObject srv cacheSegment (ProfilesObject profileData)
                                 (ttl srv) w1)
                     else w1)
           in (Inr (ProfilesObject profileData), w2)))"

definition getData :: "'j server \<Rightarrow> getDataParams \<Rightarrow> 'j viewerData job" where
  "getData srv params =
     (let cacheSegment = ''viewer-'' @ channelId params
      in awaitThen (isDataCached srv cacheSegment) (\<lambda>isItCached.
         if cacheActive srv \<and> isItCached
         then awaitThen (getCachedObject srv cacheSegment) (\<lambda>cachedData.
              awaitThen (settle (JSON_parse srv cachedData)) (\<lambda>decoded.
              resolve (Decoded decoded)))
         else awaitThen (getFreshData srv (profiles params) cacheSegment) (\<lambda>data'.
              resolve (Fresh data'))))"

section \<open>The persistent store plugin\<close>

text \<open>\<open>Array.prototype.slice\<close>: negative positions count from the end.\<close>

definition slice :: "'a list \<Rightarrow> int \<Rightarrow> int \<Rightarrow> 'a list" where
  "slice xs start end' =
     (let len = int (length xs);
          k = (if start < 0 then max (len + start) 0 else min start len);
          final = (if end' < 0 then max (len + end') 0 else min end' len)
      in take (nat (final - k)) (drop (nat k) xs))"

record DbPluginOptions =
  uri :: string
  maxPlayerProfileCount :: int

record ConfigObject =
  config_channelId :: int
  config_data :: "PlayerObject list"

text \<open>
  Modelled from the spec: the ChannelConfig model (models/ChannelConfig) and the mongoose
  collection behind it are not part of the sources. The collection is a list of documents,
  one per channel, each with the channel id and its profile list. An operation rejects
  when the store is unreachable, and an update also when the schema validators refuse the
  new profile list (\<open>runValidators\<close>). \<open>findOneAndUpdate\<close> with \<open>upsert\<close> replaces
  the profiles of the first document of the channel or appends a new document;
  \<open>findOne\<close> returns the first document of the channel.
\<close>

record channelConfigDocument =
  document_channelId :: int
  document_profiles :: "PlayerObject list"

record collection =
  documents :: "channelConfigDocument list"
  reachable :: bool
  validates :: "PlayerObject list \<Rightarrow> bool"

record configResponse =
  status :: int
  response_channelId :: "int option"
  response_profiles :: "PlayerObject list option"
  message :: "string option"

fun upsert :: "int \<Rightarrow> PlayerObject list \<Rightarrow> channelConfigDocument list \<Rightarrow> channelConfigDocument list" where
  "upsert channelId' profiles' [] =
     [\<lparr>document_channelId = channelId', document_profiles = profiles'\<rparr>]"
| "upsert channelId' profiles' (d # ds) =
     (if document_channelId d = channelId' then d\<lparr>document_profiles := profiles'\<rparr> # ds
      else d # upsert channelId' profiles' ds)"

definition ChannelConfig_findOneAndUpdate ::
  "int \<Rightarrow> PlayerObject list \<Rightarrow> collection \<Rightarrow> (error + unit) \<times> collection" where
  "ChannelConfig_findOneAndUpdate channelId' profiles' c =
     (if reachable c \<and> validates c profiles'
      then (Inr (), c\<lparr>documents := upsert channelId' profiles' (documents c)\<rparr>)
      else (Inl StoreFailure, c))"

definition ChannelConfig_findOne ::
  "int \<Rightarrow> collection \<Rightarrow> error + channelConfigDocument option" where
  "ChannelConfig_findOne channelId' c =
     (if reachable c then Inr (find (\<lambda>d. document_channelId d = channelId') (documents c))
      else Inl StoreFailure)"

text \<open>The two operations the plugin decorates the server with.\<close>

definition save :: "DbPluginOptions \<Rightarrow> ConfigObject \<Rightarrow> collection \<Rightarrow> (error + bool) \<times> collection" where
  "save opts config c =
     (case ChannelConfig_findOneAndUpdate (config_channelId config)
             (slice (config_data config) 0 (maxPlayerProfileCount opts)) c of
        (Inl error, c') \<Rightarrow> (Inr False, c')
      | (Inr _, c') \<Rightarrow> (Inr True, c'))"

definition get :: "int \<Rightarrow> collection \<Rightarrow> error + configResponse" where
  "get channelId' c =
     (case ChannelConfig_findOne channelId' c of
        Inl error \<Rightarrow>
          Inr \<lparr>status = 400, response_channelId = None, response_profiles = None,
               message = None\<rparr>
      | Inr None \<Rightarrow>
          Inr \<lparr>status = 404, response_channelId = None, response_profiles = None,
               message = Some ''No config found''\<rparr>
      | Inr (Some data') \<Rightarrow>
          Inr \<lparr>status = 200, response_channelId = Some (document_channelId data'),
               response_profiles = Some (document_profiles data'), message = None\<rparr>)"

section \<open>A sample server\<close>

text \<open>
  Concrete inputs on which the model is evaluated: an upstream client that answers every
  request with a fixed payload, except that the profile lookup of the player with
  profile id 2 fails; a Redis store that is empty and reachable; and a JSON codec that
  abbreviates the encoded payloads.
\<close>

definition sample_profileData :: "profileData apiData" where
  "sample_profileData =
     \<lparr>data =
        \<lparr>profile_summary =
           \<lparr>summary_portrait = ''portrait.png'', summary_clanName = ''Clan'',
            summary_clanTag = ''CL'', summary_displayName = ''Player''\<rparr>,
         profile_career =
           Some \<lparr>current1v1LeagueName = Some ''Diamond'',
                 currentBestTeamLeagueName = Some ''Master'',
                 totalCareerGames = Some 100,
                 best1v1Finish = Some \<lparr>leagueName = Some ''Master''\<rparr>,
                 bestTeamFinish = None\<rparr>,
         profile_snapshot =
           Some \<lparr>seasonSnapshot = [(''1v1'', \<lparr>totalWins = 3\<rparr>), (''2v2'', \<lparr>totalWins = 2\<rparr>)],
                 totalRankedSeasonGamesPlayed = Present 10\<rparr>\<rparr>\<rparr>"

definition sample_matchHistory :: "matchHistoryData apiData" where
  "sample_matchHistory =
     \<lparr>data = \<lparr>matches =
        [\<lparr>match_map = ''Y'', match_type = ''Custom'', match_decision = ''Loss'',
          match_date = 900\<rparr>,
         \<lparr>match_map = ''X'', match_type = ''1v1'', match_decision = ''Win'',
          match_date = 1000\<rparr>]\<rparr>\<rparr>"

definition sample_ladder :: "PlayerObject \<Rightarrow> ladderData apiData" where
  "sample_ladder profile =
     \<lparr>data =
        \<lparr>ladderTeams =
           [\<lparr>team_wins = 7, team_losses = 4,
             team_teamMembers =
               [\<lparr>member_id = profileId profile, member_displayName = ''Player'',
                 member_favoriteRace = ''zerg''\<rparr>]\<rparr>],
         ranksAndPools = [\<lparr>pool_rank = 12, pool_mmr = 4100\<rparr>],
         currentLadderMembership = \<lparr>localizedGameMode = ''1v1 Diamond''\<rparr>\<rparr>\<rparr>"

definition sample_server :: "string server" where
  "sample_server =
     \<lparr>cacheActive = True,
      ttl = 60,
      sas_getProfile =
        (\<lambda>profile. if profileId profile = 2 then Inl UpstreamFailure else Inr sample_profileData),
      sas_getLegacyMatchHistory = (\<lambda>profile. Inr sample_matchHistory),
      sas_getLadderSummary = (\<lambda>profile. Inr \<lparr>data = \<lparr>allLadderMemberships = [\<lparr>ladderId = 7\<rparr>]\<rparr>\<rparr>),
      sas_getLadder = (\<lambda>profile ladderId'. Inr (sample_ladder profile)),
      getRegionNameById = (\<lambda>region. Inr [''eu'']),
      stringify =
        (\<lambda>data'. if data' = ProfilesObject [] then ''{\"profiles\":[]}'' else ''{\"profiles\":[...]}''),
      parse = (\<lambda>text. Inr text)\<rparr>"

definition sample_world :: world where
  "sample_world =
     \<lparr>now = 0, redis_up = True, redis = Map.empty, redis_history = [], sas_calls = [],
      log_info = [], timers = []\<rparr>"

definition sample_player :: "int \<Rightarrow> PlayerObject" where
  "sample_player n = \<lparr>regionId = 2, realmId = 1, profileId = n\<rparr>"

definition sample_cached_world :: world where
  "sample_cached_world =
     sample_world\<lparr>redis := [''viewer-9'' \<mapsto> (''{\"profiles\":[]}'', Some 60000)]\<rparr>"

definition sample_collection :: collection where
  "sample_collection = \<lparr>documents = [], reachable = True, validates = (\<lambda>profiles'. True)\<rparr>"

definition sample_config :: ConfigObject where
  "sample_config =
     \<lparr>config_channelId = 7,
      config_data = [sample_player 1, sample_player 2, sample_player 3]\<rparr>"

definition sample_options :: DbPluginOptions where
  "sample_options = \<lparr>uri = ''mongodb://localhost/viewer'', maxPlayerProfileCount = 2\<rparr>"

text \<open>The payload the sample server yields for every player but player 2.\<close>

definition sample_payload :: viewerProfile where
  "sample_payload =
     Payload
       \<lparr>heading_portrait = \<lparr>portrait_url = ''portrait.png'', portrait_frame = ''master''\<rparr>,
        heading_player =
          \<lparr>player_clan = \<lparr>clan_name = ''Clan'', clan_tag = ''CL''\<rparr>,
           player_name = ''Player'', player_server = Some ''eu''\<rparr>\<rparr>
       \<lparr>details_snapshot =
          [\<lparr>result_mode = ''1v1'', result_rank = ''diamond'', result_wins = 7,
            result_losses = 4, result_race = ''zerg'', result_mmr = 4100,
            result_divisionRank = 12, result_teamMembers = [''Player'']\<rparr>],
        details_stats =
          \<lparr>stats_totalCareerGames = 100, stats_totalRankedGamesThisSeason = Present 10,
           stats_seasonWinRatio = Finite 50, stats_highestSoloRank = ''master'',
           stats_highestTeamRank = []\<rparr>,
        details_history =
          [\<lparr>mapName = ''X'', mode = ''1v1'', result = ''win'', date = 1000000\<rparr>]\<rparr>"

section \<open>Specification-side notions\<close>

text \<open>
  The RankTier of an optional label: its position in \<open>ranks\<close>, with \<open>-1\<close> for an
  absent, empty or unknown label (the lowest tier). \<open>labelOf\<close> is the lower-cased label,
  empty when absent.
\<close>

definition tierOf :: "string option \<Rightarrow> int" where
  "tierOf x =
     (case x of
        Some s \<Rightarrow> if s \<noteq> [] then indexOf ranks (toLowerCase s) else - 1
      | None \<Rightarrow> - 1)"

definition labelOf :: "string option \<Rightarrow> string" where
  "labelOf x = (case x of Some s \<Rightarrow> toLowerCase s | None \<Rightarrow> [])"

text \<open>
  The tie-break as the specification words it: the strictly higher tier wins, otherwise
  the solo label if present, else the team label, else the empty string.
\<close>

definition highestRank_claimed :: "string option \<Rightarrow> string option \<Rightarrow> string" where
  "highestRank_claimed solo team =
     (if tierOf team < tierOf solo then labelOf solo
      else if tierOf solo < tierOf team then labelOf team
      else if truthy solo then labelOf solo
      else if truthy team then labelOf team
      else [])"

text \<open>
  Properties of jobs used in the proofs: the outcome does not depend on the world; the
  clock and the cache are left as they were; the log of upstream calls only grows.
\<close>

definition pureJob :: "'a job \<Rightarrow> bool" where
  "pureJob m = (\<forall>w w'. fst (m w) = fst (m w'))"

definition untouched :: "world \<Rightarrow> world \<Rightarrow> bool" where
  "untouched w w' =
     (now w' = now w \<and> redis_up w' = redis_up w \<and> redis w' = redis w \<and>
      redis_history w' = redis_history w)"

definition quiet :: "'a job \<Rightarrow> bool" where
  "quiet m = (\<forall>w. untouched w (snd (m w)))"

definition logging :: "'a job \<Rightarrow> bool" where
  "logging m = (\<forall>w. \<exists>cs. sas_calls (snd (m w)) = sas_calls w @ cs)"

text \<open>
  An upstream failure for a profile: one of its profile, match-history or ladder-summary
  lookups fails, or the lookup of one of the ladders listed in its summary.
\<close>

definition ladderFailure :: "'j server \<Rightarrow> PlayerObject \<Rightarrow> bool" where
  "ladderFailure srv p =
     (case sas_getLadderSummary srv p of
        Inl e \<Rightarrow> True
      | Inr d \<Rightarrow> list_ex (\<lambda>l. isl (sas_getLadder srv p l))
                  (map ladderId (allLadderMemberships (data d))))"

definition upstreamFailure :: "'j server \<Rightarrow> PlayerObject \<Rightarrow> bool" where
  "upstreamFailure srv p =
     (isl (sas_getProfile srv p) \<or> isl (sas_getLegacyMatchHistory srv p) \<or> ladderFailure srv p)"

text \<open>
  The outcomes of several lookups taken together: all values, or the first failure. The
  ladder results of a profile are the player's entries of the ladders listed in its
  ladder summary, in order. A transformation failure for a profile: the region lookup
  fails, its profile response has no career or no stats can be computed from it, or the
  player's entry cannot be extracted from one of its ladders.
\<close>

fun collect :: "(error + 'a) list \<Rightarrow> error + 'a list" where
  "collect [] = Inr []"
| "collect (r # rs) =
     (case r of
        Inl e \<Rightarrow> Inl e
      | Inr x \<Rightarrow> (case collect rs of Inl e \<Rightarrow> Inl e | Inr xs \<Rightarrow> Inr (x # xs)))"

definition ladderResults ::
  "'j server \<Rightarrow> PlayerObject \<Rightarrow> ladderSummaryData apiData \<Rightarrow> error + ladderResult list" where
  "ladderResults srv p summary' =
     collect (map (\<lambda>l. andThen (sas_getLadder srv p l)
                          (\<lambda>ladder. getPlayerLadderInfo ladder (profileId p)))
                (map ladderId (allLadderMemberships (data summary'))))"

definition transformFailure :: "'j server \<Rightarrow> PlayerObject \<Rightarrow> bool" where
  "transformFailure srv p =
     (isl (getRegionNameById srv (regionId p)) \<or>
      (case sas_getProfile srv p of
         Inl e \<Rightarrow> False
       | Inr pd \<Rightarrow> profile_career (data pd) = None \<or> isl (getStats pd)) \<or>
      (case sas_getLadderSummary srv p of
         Inl e \<Rightarrow> False
       | Inr summary' \<Rightarrow> isl (ladderResults srv p summary')))"

text \<open>The MatchRecord of a raw match entry, as the specification describes it.\<close>

definition matchRecord_of :: "matchObject \<Rightarrow> matchRecord" where
  "matchRecord_of m =
     \<lparr>mapName = match_map m, mode = match_type m,
      result = toLowerCase (match_decision m), date = match_date m * 1000\<rparr>"

section \<open>Properties of the rank tie-break\<close>

lemma indexOf_ge: "- 1 \<le> indexOf xs x"
  by (induction xs) (auto simp: Let_def)

lemma indexOf_inj: "indexOf xs a = indexOf xs b \<Longrightarrow> 0 \<le> indexOf xs a \<Longrightarrow> a = b"
  by (induction xs) (auto simp: Let_def split: if_splits)

lemma tierOf_ge: "- 1 \<le> tierOf x"
  by (auto simp: tierOf_def indexOf_ge split: option.splits)

lemma calculateHighestRank_tiers:
  "calculateHighestRank solo team =
     (if tierOf team < tierOf solo then labelOf solo
      else if truthy team then labelOf team else [])"
  using tierOf_ge[of team]
  by (auto simp: calculateHighestRank_def tierOf_def labelOf_def truthy_def Let_def
           split: option.splits)

lemma equal_known_tiers:
  assumes "tierOf solo = tierOf team" "0 \<le> tierOf solo"
  shows "truthy team \<and> labelOf solo = labelOf team"
proof -
  from assms obtain s where
    s: "solo = Some s" "s \<noteq> []" "tierOf solo = indexOf ranks (toLowerCase s)"
    by (auto simp: tierOf_def split: option.splits if_splits)
  from assms obtain t where
    t: "team = Some t" "t \<noteq> []" "tierOf team = indexOf ranks (toLowerCase t)"
    by (auto simp: tierOf_def split: option.splits if_splits)
  from assms s t have "toLowerCase s = toLowerCase t"
    by (auto intro: indexOf_inj)
  with s t show ?thesis by (simp add: truthy_def labelOf_def)
qed

text \<open>
  C3, as the code has it. The label of the strictly higher tier is returned, lower-cased.
  When both tiers are the same known tier the two lower-cased labels coincide. In every
  tie, also the tie of two absent or unknown tiers, the team label is returned if it is
  present and non-empty, and the empty string otherwise; the solo label is not consulted.
  The three examples of the specification hold.
\<close>

theorem calculateHighestRank_tie_break:
  "(tierOf team < tierOf solo \<longrightarrow> calculateHighestRank solo team = labelOf solo) \<and>
   (tierOf solo < tierOf team \<longrightarrow> calculateHighestRank solo team = labelOf team) \<and>
   (tierOf solo = tierOf team \<and> 0 \<le> tierOf solo \<longrightarrow>
      calculateHighestRank solo team = labelOf solo) \<and>
   (tierOf solo = tierOf team \<longrightarrow>
      calculateHighestRank solo team = (if truthy team then labelOf team else [])) \<and>
   calculateHighestRank (Some ''Diamond'') (Some ''Master'') = ''master'' \<and>
   calculateHighestRank (Some ''Diamond'') None = ''diamond'' \<and>
   calculateHighestRank None None = []"
proof -
  have known: "tierOf solo < tierOf team \<Longrightarrow> truthy team"
    using tierOf_ge[of solo]
    by (auto simp: tierOf_def truthy_def split: option.splits if_splits)
  have ex1: "calculateHighestRank (Some ''Diamond'') (Some ''Master'') = ''master''"
    by code_simp
  have ex2: "calculateHighestRank (Some ''Diamond'') None = ''diamond''"
    by code_simp
  have ex3: "calculateHighestRank None None = []"
    by code_simp
  show ?thesis
    using known equal_known_tiers[of solo team] ex1 ex2 ex3
    by (simp add: calculateHighestRank_tiers)
qed

text \<open>
  The tie-break theorem at concrete labels: a strictly higher solo tier, a strictly
  higher team tier, two spellings of the same known tier, and two unknown labels.
\<close>

theorem calculateHighestRank_tie_break_witness:
  "tierOf (Some ''Gold'') < tierOf (Some ''Master'') \<and>
   calculateHighestRank (Some ''Master'') (Some ''Gold'') = ''master'' \<and>
   calculateHighestRank (Some ''Gold'') (Some ''Master'') = ''master'' \<and>
   tierOf (Some ''GOLD'') = tierOf (Some ''Gold'') \<and> 0 \<le> tierOf (Some ''GOLD'') \<and>
   calculateHighestRank (Some ''GOLD'') (Some ''Gold'') = ''gold'' \<and>
   tierOf (Some ''Rookie'') = tierOf (Some ''Novice'') \<and>
   calculateHighestRank (Some ''Rookie'') (Some ''Novice'') = ''novice''"
proof -
  have lt: "tierOf (Some ''Gold'') < tierOf (Some ''Master'')" by code_simp
  have eq: "tierOf (Some ''GOLD'') = tierOf (Some ''Gold'')" "0 \<le> tierOf (Some ''GOLD'')"
    by code_simp+
  have un: "tierOf (Some ''Rookie'') = tierOf (Some ''Novice'')" by code_simp
  have l1: "labelOf (Some ''Master'') = ''master''" by code_simp
  have l2: "labelOf (Some ''GOLD'') = ''gold''" by code_simp
  have l3: "labelOf (Some ''Novice'') = ''novice''" "truthy (Some ''Novice'')"
    by code_simp+
  show ?thesis
    using calculateHighestRank_tie_break[of "Some ''Gold''" "Some ''Master''"]
      calculateHighestRank_tie_break[of "Some ''Master''" "Some ''Gold''"]
      calculateHighestRank_tie_break[of "Some ''Gold''" "Some ''GOLD''"]
      calculateHighestRank_tie_break[of "Some ''Novice''" "Some ''Rookie''"]
      lt eq un l1 l2 l3
    by simp
qed

text \<open>
  C3 as stated fails: with the unknown solo label "Unranked" and no team label the two
  tiers tie, the claimed result is the solo label \<open>unranked\<close>, and the code returns the
  empty string.
\<close>

theorem calculateHighestRank_solo_preference_counterexample:
  "tierOf (Some ''Unranked'') = tierOf None \<and>
   highestRank_claimed (Some ''Unranked'') None = ''unranked'' \<and>
   calculateHighestRank (Some ''Unranked'') None = []"
  by code_simp

section \<open>Properties of the season win ratio\<close>

text \<open>
  What \<open>calculateSeasonWinRatio\<close> and the \<open>|| 0\<close> of \<open>getStats\<close> yield on a
  non-empty season snapshot: the rounded percentage for a non-zero denominator, 0 for a
  missing one, and for a zero or \<open>null\<close> denominator 0 only when there are no wins
  either.
\<close>

lemma foldl_plus: "foldl (\<lambda>sum' value. sum' + value) (a::int) xs = a + sum_list xs"
  by (induction xs arbitrary: a) auto

lemma calculateWins_sum:
  "ms \<noteq> [] \<Longrightarrow> calculateWins ms = Inr (sum_list (map (\<lambda>(gameMode, s). totalWins s) ms))"
  by (cases ms) (auto simp: calculateWins_def foldl_plus)

lemma calculateWins_empty: "calculateWins [] = Inl TypeError"
  by (simp add: calculateWins_def)

lemma seasonWinRatio_nonzero_denominator:
  assumes "seasonSnapshot s \<noteq> []" "totalRankedSeasonGamesPlayed s = Present n" "n \<noteq> 0"
  shows "calculateSeasonWinRatio (Some s) =
     Inr (Finite (of_int
       \<lfloor>(of_int (sum_list (map (\<lambda>(gameMode, m). totalWins m) (seasonSnapshot s)) * 100) :: rat)
          / of_int n + 1 / 2\<rfloor>))"
  using assms
  by (simp add: calculateSeasonWinRatio_def andThen_def required_def calculateWins_sum
      ToNumber_def Math_round_def)

lemma seasonWinRatio_missing_denominator:
  assumes "seasonSnapshot s \<noteq> []" "totalRankedSeasonGamesPlayed s = Missing"
  shows "map_sum id or_zero (calculateSeasonWinRatio (Some s)) = Inr (Finite 0)"
  using assms
  by (simp add: calculateSeasonWinRatio_def andThen_def required_def calculateWins_sum
      ToNumber_def Math_round_def or_zero_def)

lemma seasonWinRatio_zero_denominator:
  assumes "seasonSnapshot s \<noteq> []"
    and "totalRankedSeasonGamesPlayed s = Present 0 \<or> totalRankedSeasonGamesPlayed s = Null"
  shows "map_sum id or_zero (calculateSeasonWinRatio (Some s)) =
     Inr (let wins = sum_list (map (\<lambda>(gameMode, m). totalWins m) (seasonSnapshot s))
          in if wins = 0 then Finite 0 else if 0 < wins then PosInfinity else NegInfinity)"
proof -
  from assms(2) have "ToNumber (totalRankedSeasonGamesPlayed s) = Finite 0"
    by (auto simp: ToNumber_def)
  with assms(1) show ?thesis
    by (simp add: calculateSeasonWinRatio_def andThen_def required_def calculateWins_sum
        Math_round_def or_zero_def Let_def)
qed

section \<open>Properties of jobs\<close>

lemma pureJob_alt: "pureJob m = (\<exists>r. \<forall>w. fst (m w) = r)"
  unfolding pureJob_def by metis

lemma fst_awaitThen:
  "fst (awaitThen m f w) = (case fst (m w) of Inl e \<Rightarrow> Inl e | Inr x \<Rightarrow> fst (f x (snd (m w))))"
  by (simp add: awaitThen_def split: prod.splits sum.splits)

lemma snd_awaitThen:
  "snd (awaitThen m f w) = (case fst (m w) of Inl e \<Rightarrow> snd (m w) | Inr x \<Rightarrow> snd (f x (snd (m w))))"
  by (simp add: awaitThen_def split: prod.splits sum.splits)

lemma pureJob_resolve: "pureJob (resolve x)"
  by (simp add: pureJob_def resolve_def)

lemma pureJob_settle: "pureJob (settle r)"
  by (simp add: pureJob_def settle_def)

lemma pureJob_sas: "pureJob (sas c r)"
  by (simp add: pureJob_def sas_def)

lemma pureJob_await_sleep: "pureJob (await_sleep ms)"
  by (simp add: pureJob_def await_sleep_def sleep_def await_def)

lemma pureJob_awaitThen:
  assumes "pureJob m" "\<And>x. pureJob (f x)"
  shows "pureJob (awaitThen m f)"
  unfolding pureJob_def
proof (intro allI)
  fix w w'
  from assms(1) have m: "fst (m w) = fst (m w')" by (simp add: pureJob_def)
  show "fst (awaitThen m f w) = fst (awaitThen m f w')"
  proof (cases "fst (m w')")
    case (Inl e)
    with m show ?thesis by (simp add: fst_awaitThen)
  next
    case (Inr x)
    from assms(2)[of x] have "fst (f x (snd (m w))) = fst (f x (snd (m w')))"
      by (simp add: pureJob_def)
    with m Inr show ?thesis by (simp add: fst_awaitThen)
  qed
qed

lemma fst_Promise_all_Cons:
  "fst (Promise_all (j # js) w) =
     (case fst (j w) of
        Inl e \<Rightarrow> Inl e
      | Inr x \<Rightarrow> (case fst (Promise_all js (snd (j w))) of Inl e \<Rightarrow> Inl e | Inr xs \<Rightarrow> Inr (x # xs)))"
  by (simp split: prod.splits sum.splits)

lemma snd_Promise_all_Cons:
  "snd (Promise_all (j # js) w) = snd (Promise_all js (snd (j w)))"
  by (simp split: prod.splits sum.splits)

lemma pureJob_Promise_all:
  assumes "\<forall>j \<in> set js. pureJob j"
  shows "pureJob (Promise_all js)"
  using assms
proof (induction js)
  case Nil
  show ?case by (simp add: pureJob_def)
next
  case (Cons j js)
  then have j: "\<And>w w'. fst (j w) = fst (j w')" and
    rest: "\<And>w w'. fst (Promise_all js w) = fst (Promise_all js w')"
    by (simp_all add: pureJob_def)
  show ?case
    unfolding pureJob_def fst_Promise_all_Cons
  proof (intro allI)
    fix w w'
    show "(case fst (j w) of Inl e \<Rightarrow> Inl e
           | Inr x \<Rightarrow> (case fst (Promise_all js (snd (j w))) of Inl e \<Rightarrow> Inl e | Inr xs \<Rightarrow> Inr (x # xs))) =
          (case fst (j w') of Inl e \<Rightarrow> Inl e
           | Inr x \<Rightarrow> (case fst (Promise_all js (snd (j w'))) of Inl e \<Rightarrow> Inl e | Inr xs \<Rightarrow> Inr (x # xs)))"
      using j[of w w'] rest[of "snd (j w)" "snd (j w')"] by (simp split: sum.splits)
  qed
qed

lemma pureJob_getLadderData: "pureJob (getLadderData srv profile l i)"
  unfolding getLadderData_def
  by (intro pureJob_awaitThen pureJob_await_sleep pureJob_sas pureJob_settle)

lemma pureJob_getSnapshot: "pureJob (getSnapshot srv apiData profile)"
  unfolding getSnapshot_def Let_def
  by (rule pureJob_Promise_all) (auto simp: pureJob_getLadderData)

lemma pureJob_getProfileData_try: "pureJob (getProfileData_try srv profile i)"
  unfolding getProfileData_try_def Let_def
  by (intro pureJob_awaitThen pureJob_await_sleep pureJob_sas pureJob_settle
        pureJob_getSnapshot pureJob_resolve)

lemma fst_getProfileData:
  "fst (getProfileData srv profile i w) =
     (case fst (getProfileData_try srv profile i w) of
        Inl e \<Rightarrow> Inr EmptyObject | Inr payload \<Rightarrow> Inr payload)"
  by (simp add: getProfileData_def split: prod.splits sum.splits)

lemma snd_getProfileData:
  "snd (getProfileData srv profile i w) = snd (getProfileData_try srv profile i w)"
  by (simp add: getProfileData_def split: prod.splits sum.splits)

lemma pureJob_getProfileData: "pureJob (getProfileData srv profile i)"
proof -
  from pureJob_getProfileData_try[of srv profile i] obtain r where
    "\<And>w. fst (getProfileData_try srv profile i w) = r"
    by (auto simp: pureJob_alt)
  then show ?thesis by (simp add: pureJob_def fst_getProfileData)
qed

lemma getProfileData_fulfils: "\<exists>slot. fst (getProfileData srv profile i w) = Inr slot"
  by (simp add: fst_getProfileData split: sum.splits)

lemma Promise_all_fulfils:
  assumes "\<forall>j \<in> set js. pureJob j" "\<forall>j \<in> set js. \<forall>w. \<exists>x. fst (j w) = Inr x"
  shows "\<exists>xs. fst (Promise_all js w) = Inr xs \<and> length xs = length js \<and>
           (\<forall>i < length js. \<forall>w'. fst ((js ! i) w') = Inr (xs ! i))"
  using assms
proof (induction js arbitrary: w)
  case Nil
  show ?case by simp
next
  case (Cons j js)
  from Cons.prems(2) have "\<exists>x. fst (j w) = Inr x" by simp
  then obtain x where x: "fst (j w) = Inr x" ..
  from Cons.prems have "pureJob j" by simp
  with x have jx: "\<And>w'. fst (j w') = Inr x" by (metis pureJob_def)
  from Cons.IH[of "snd (j w)"] Cons.prems obtain xs where
    xs: "fst (Promise_all js (snd (j w))) = Inr xs" "length xs = length js"
      "\<forall>i < length js. \<forall>w'. fst ((js ! i) w') = Inr (xs ! i)"
    by auto
  have "\<forall>i < length (j # js). \<forall>w'. fst (((j # js) ! i) w') = Inr ((x # xs) ! i)"
  proof (intro allI impI)
    fix i w'
    assume "i < length (j # js)"
    then show "fst (((j # js) ! i) w') = Inr ((x # xs) ! i)"
      using jx xs(3) by (cases i) auto
  qed
  moreover have "fst (Promise_all (j # js) w) = Inr (x # xs)"
    unfolding fst_Promise_all_Cons using x xs(1) by simp
  ultimately show ?case
    using xs(2) by (intro exI[of _ "x # xs"]) simp
qed

section \<open>Properties of the viewer plugin\<close>

text \<open>
  C8. The result of \<open>getData\<close> and the world it leaves (cache, upstream calls, log) do
  not depend on the \<open>refresh\<close> field of the request: the function destructures only
  \<open>channelId\<close> and \<open>profiles\<close>.
\<close>

theorem getData_ignores_refresh:
  "getData srv (params\<lparr>refresh := r\<rparr>) w = getData srv params w"
  by (simp add: getData_def Let_def cong: if_cong)

text \<open>
  C4. With the cache backend active and answering, and a present, unexpired entry under
  \<open>viewer-{channelId}\<close> whose text decodes to a value, \<open>getData\<close> returns exactly
  that decoded value and leaves the world as it found it: no upstream call is issued,
  nothing is written, nothing is logged.
\<close>

theorem getData_cache_hit:
  assumes "cacheActive srv" and "redis_up w"
    and "redis_lookup w (''viewer-'' @ channelId params) = Some v"
    and "JSON_parse srv (Some v) = Inr decoded"
  shows "getData srv params w = (Inr (Decoded decoded), w)"
proof -
  from assms(4) have "v \<noteq> []"
    by (auto simp: JSON_parse_def split: if_splits)
  then have "truthy (Some v)" by (simp add: truthy_def)
  with assms show ?thesis
    by (simp add: getData_def isDataCached_def getCachedObject_def awaitThen_def redis_get_def
        resolve_def settle_def Let_def)
qed

lemma batch_jobs_nth:
  assumes "i < length ps"
  shows "map (\<lambda>(index, profile). getProfileData srv profile index) (enumerate 0 ps) ! i =
         getProfileData srv (ps ! i) i"
  using assms by (simp add: nth_enumerate_eq)

lemma batch_fulfils:
  "\<exists>rs. fst (Promise_all
              (map (\<lambda>(index, profile). getProfileData srv profile index) (enumerate 0 ps)) w) =
           Inr rs \<and> length rs = length ps \<and>
         (\<forall>i < length ps. \<forall>w'. fst (getProfileData srv (ps ! i) i w') = Inr (rs ! i))"
proof -
  let ?js = "map (\<lambda>(index, profile). getProfileData srv profile index) (enumerate 0 ps)"
  have pure: "\<forall>j \<in> set ?js. pureJob j"
    by (auto simp: pureJob_getProfileData)
  have ful: "\<forall>j \<in> set ?js. \<forall>w. \<exists>x. fst (j w) = Inr x"
    by (auto simp: getProfileData_fulfils)
  from Promise_all_fulfils[OF pure ful, of w] obtain rs where
    rs: "fst (Promise_all ?js w) = Inr rs" "length rs = length ?js"
      "\<forall>i < length ?js. \<forall>w'. fst ((?js ! i) w') = Inr (rs ! i)"
    by blast
  have "\<forall>i < length ps. \<forall>w'. fst (getProfileData srv (ps ! i) i w') = Inr (rs ! i)"
  proof (intro allI impI)
    fix i w' assume i: "i < length ps"
    with rs(3) have "fst ((?js ! i) w') = Inr (rs ! i)" by simp
    with i show "fst (getProfileData srv (ps ! i) i w') = Inr (rs ! i)"
      by (simp only: batch_jobs_nth)
  qed
  with rs(1,2) show ?thesis by auto
qed

lemma fst_getFreshData:
  "fst (getFreshData srv ps seg w) =
     (case fst (Promise_all
                  (map (\<lambda>(index, profile). getProfileData srv profile index) (enumerate 0 ps)) w) of
        Inl e \<Rightarrow> Inr EmptyArray
      | Inr profileData \<Rightarrow> Inr (ProfilesObject profileData))"
  by (simp add: getFreshData_def Let_def split: prod.splits sum.splits)

text \<open>
  C10. The \<open>Promise.all\<close> over the profile pipelines never rejects, so \<open>getFreshData\<close>
  always returns an object \<open>{profiles: results}\<close> with one result per input profile and
  never the empty array of its \<open>catch\<close> branch.
\<close>

theorem getFreshData_never_empty_array:
  "(\<exists>rs. fst (Promise_all
               (map (\<lambda>(index, profile). getProfileData srv profile index) (enumerate 0 ps)) w) =
            Inr rs) \<and>
   (\<exists>rs. fst (getFreshData srv ps seg w) = Inr (ProfilesObject rs) \<and> length rs = length ps) \<and>
   fst (getFreshData srv ps seg w) \<noteq> Inr EmptyArray"
proof -
  from batch_fulfils[of srv ps w] obtain rs where
    "fst (Promise_all
            (map (\<lambda>(index, profile). getProfileData srv profile index) (enumerate 0 ps)) w) =
       Inr rs" "length rs = length ps"
    by blast
  then show ?thesis by (simp add: fst_getFreshData)
qed

lemma fst_sas: "fst (sas c r w) = r"
  by (simp add: sas_def)

lemma fst_settle: "fst (settle r w) = r"
  by (simp add: settle_def)

lemma fst_resolve: "fst (resolve x w) = Inr x"
  by (simp add: resolve_def)

lemma fst_await_sleep: "fst (await_sleep ms w) = Inr ()"
  by (simp add: await_sleep_def sleep_def await_def)

lemmas fst_job = fst_awaitThen fst_sas fst_settle fst_resolve fst_await_sleep

lemma fst_Promise_all_pure:
  assumes "\<forall>j \<in> set js. pureJob j"
  shows "fst (Promise_all js w) = collect (map (\<lambda>j. fst (j w)) js)"
  using assms
proof (induction js arbitrary: w)
  case Nil
  show ?case by simp
next
  case (Cons j js)
  then have pure: "\<forall>k \<in> set js. pureJob k" by simp
  have "map (\<lambda>k. fst (k (snd (j w)))) js = map (\<lambda>k. fst (k w)) js"
    using pure by (auto simp: pureJob_def)
  with Cons.IH[OF pure, of "snd (j w)"]
  have "fst (Promise_all js (snd (j w))) = collect (map (\<lambda>k. fst (k w)) js)"
    by simp
  then show ?case
    unfolding fst_Promise_all_Cons by (simp split: sum.splits)
qed

lemma map_enumerate_snd: "map (\<lambda>(i, x). f x) (enumerate n xs) = map f xs"
  by (induction xs arbitrary: n) auto

lemma fst_getLadderData:
  "fst (getLadderData srv p l i w) =
     andThen (sas_getLadder srv p l) (\<lambda>ladder. getPlayerLadderInfo ladder (profileId p))"
  by (simp add: getLadderData_def fst_job andThen_def split: sum.splits)

lemma map_fst_getLadderData:
  "map (\<lambda>j. fst (j w)) (map (\<lambda>(index, l). getLadderData srv p l index) xs) =
   map (\<lambda>(index, l). andThen (sas_getLadder srv p l)
                (\<lambda>ladder. getPlayerLadderInfo ladder (profileId p))) xs"
  by (induction xs) (auto simp: fst_getLadderData)

lemma fst_getSnapshot: "fst (getSnapshot srv summary' p w) = ladderResults srv p summary'"
proof -
  let ?ids = "map ladderId (allLadderMemberships (data summary'))"
  let ?js = "map (\<lambda>(index, ladderId'). getLadderData srv p ladderId' index) (enumerate 0 ?ids)"
  have pure: "\<forall>j \<in> set ?js. pureJob j"
    by (auto simp: pureJob_getLadderData)
  have "map (\<lambda>j. fst (j w)) ?js =
      map (\<lambda>(index, l). andThen (sas_getLadder srv p l)
                   (\<lambda>ladder. getPlayerLadderInfo ladder (profileId p)))
        (enumerate 0 ?ids)"
    by (rule map_fst_getLadderData)
  then have "map (\<lambda>j. fst (j w)) ?js =
      map (\<lambda>l. andThen (sas_getLadder srv p l)
                   (\<lambda>ladder. getPlayerLadderInfo ladder (profileId p))) ?ids"
    by (simp only: map_enumerate_snd)
  then show ?thesis
    unfolding getSnapshot_def Let_def ladderResults_def
    by (simp only: fst_Promise_all_pure[OF pure])
qed

lemma fst_getProfileData_try:
  "fst (getProfileData_try srv p i w) =
     andThen (sas_getProfile srv p) (\<lambda>pd.
     andThen (sas_getLegacyMatchHistory srv p) (\<lambda>mh.
     andThen (sas_getLadderSummary srv p) (\<lambda>summary'.
     andThen (getRegionNameById srv (regionId p)) (\<lambda>names.
     andThen (getHeading pd (element names 0)) (\<lambda>h.
     andThen (ladderResults srv p summary') (\<lambda>sn.
     andThen (getStats pd) (\<lambda>st.
       Inr (Payload h \<lparr>details_snapshot = sn, details_stats = st,
                        details_history = getMatchHistory mh\<rparr>))))))))"
  by (simp add: getProfileData_try_def fst_job fst_getSnapshot andThen_def Let_def
      split: sum.splits)

lemma getHeading_fields:
  "getHeading pd region =
     (case profile_career (data pd) of
        None \<Rightarrow> Inl TypeError
      | Some c \<Rightarrow>
          Inr \<lparr>heading_portrait =
                 \<lparr>portrait_url = summary_portrait (profile_summary (data pd)),
                  portrait_frame =
                    calculateHighestRank (current1v1LeagueName c) (currentBestTeamLeagueName c)\<rparr>,
               heading_player =
                 \<lparr>player_clan =
                    \<lparr>clan_name = summary_clanName (profile_summary (data pd)),
                     clan_tag = summary_clanTag (profile_summary (data pd))\<rparr>,
                  player_name = summary_displayName (profile_summary (data pd)),
                  player_server = region\<rparr>\<rparr>)"
  by (simp add: getHeading_def andThen_def required_def Let_def split: option.splits)

lemma upstreamFailure_cases:
  "upstreamFailure srv p \<longleftrightarrow>
     isl (sas_getProfile srv p) \<or> isl (sas_getLegacyMatchHistory srv p) \<or>
     isl (sas_getLadderSummary srv p) \<or>
     (\<exists>summary'. sas_getLadderSummary srv p = Inr summary' \<and>
        list_ex (\<lambda>l. isl (sas_getLadder srv p l))
          (map ladderId (allLadderMemberships (data summary'))))"
  by (auto simp: upstreamFailure_def ladderFailure_def isl_def split: sum.splits)

lemma collect_rejects: "r \<in> set rs \<Longrightarrow> isl r \<Longrightarrow> isl (collect rs)"
  by (induction rs) (auto simp: isl_def split: sum.splits)

lemma ladder_upstream_failure_rejects:
  assumes "list_ex (\<lambda>l. isl (sas_getLadder srv p l))
             (map ladderId (allLadderMemberships (data summary')))"
  shows "isl (ladderResults srv p summary')"
proof -
  from assms obtain l where l: "l \<in> set (map ladderId (allLadderMemberships (data summary')))"
      "isl (sas_getLadder srv p l)"
    by (auto simp: list_ex_iff)
  then have "isl (andThen (sas_getLadder srv p l)
      (\<lambda>ladder. getPlayerLadderInfo ladder (profileId p)))"
    by (auto simp: andThen_def isl_def)
  with l(1) show ?thesis
    unfolding ladderResults_def
    by (intro collect_rejects[where r = "andThen (sas_getLadder srv p l)
          (\<lambda>ladder. getPlayerLadderInfo ladder (profileId p))"]) auto
qed

lemma getProfileData_failure:
  assumes "upstreamFailure srv p \<or> transformFailure srv p"
  shows "fst (getProfileData srv p i w) = Inr EmptyObject"
proof -
  have "isl (fst (getProfileData_try srv p i w))"
    using assms ladder_upstream_failure_rejects[of srv p]
    unfolding fst_getProfileData_try upstreamFailure_cases transformFailure_def
      getHeading_fields
    by (auto simp: andThen_def isl_def split: sum.splits option.splits)
      (metis Inl_Inr_False)
  then show ?thesis
    by (auto simp: fst_getProfileData isl_def)
qed

lemma getProfileData_payload:
  assumes "\<not> upstreamFailure srv p" "\<not> transformFailure srv p"
  shows "\<exists>pd mh summary' names c sn st.
     sas_getProfile srv p = Inr pd \<and> sas_getLegacyMatchHistory srv p = Inr mh \<and>
     sas_getLadderSummary srv p = Inr summary' \<and>
     getRegionNameById srv (regionId p) = Inr names \<and>
     profile_career (data pd) = Some c \<and>
     ladderResults srv p summary' = Inr sn \<and> getStats pd = Inr st \<and>
     fst (getProfileData srv p i w) =
       Inr (Payload
         \<lparr>heading_portrait =
            \<lparr>portrait_url = summary_portrait (profile_summary (data pd)),
             portrait_frame =
               calculateHighestRank (current1v1LeagueName c) (currentBestTeamLeagueName c)\<rparr>,
          heading_player =
            \<lparr>player_clan =
               \<lparr>clan_name = summary_clanName (profile_summary (data pd)),
                clan_tag = summary_clanTag (profile_summary (data pd))\<rparr>,
             player_name = summary_displayName (profile_summary (data pd)),
             player_server = element names 0\<rparr>\<rparr>
         \<lparr>details_snapshot = sn, details_stats = st,
          details_history = getMatchHistory mh\<rparr>)"
proof -
  from assms(1) obtain pd mh summary' where up: "sas_getProfile srv p = Inr pd"
      "sas_getLegacyMatchHistory srv p = Inr mh" "sas_getLadderSummary srv p = Inr summary'"
    unfolding upstreamFailure_cases by (auto simp: isl_def) (metis sum.exhaust)
  with assms(2) obtain names c sn st where tr:
      "getRegionNameById srv (regionId p) = Inr names" "profile_career (data pd) = Some c"
      "ladderResults srv p summary' = Inr sn" "getStats pd = Inr st"
    unfolding transformFailure_def by (auto simp: isl_def) (metis sum.exhaust)
  have "fst (getProfileData srv p i w) =
       Inr (Payload
         \<lparr>heading_portrait =
            \<lparr>portrait_url = summary_portrait (profile_summary (data pd)),
             portrait_frame =
               calculateHighestRank (current1v1LeagueName c) (currentBestTeamLeagueName c)\<rparr>,
          heading_player =
            \<lparr>player_clan =
               \<lparr>clan_name = summary_clanName (profile_summary (data pd)),
                clan_tag = summary_clanTag (profile_summary (data pd))\<rparr>,
             player_name = summary_displayName (profile_summary (data pd)),
             player_server = element names 0\<rparr>\<rparr>
         \<lparr>details_snapshot = sn, details_stats = st,
          details_history = getMatchHistory mh\<rparr>)"
    using up tr
    by (simp add: fst_getProfileData fst_getProfileData_try getHeading_fields andThen_def)
  with up tr show ?thesis by blast
qed

text \<open>
  C6. The batch result has one slot per input profile, in input order. Slot \<open>i\<close> is what
  the pipeline of profile \<open>i\<close> at index \<open>i\<close> yields by itself, in any world, so it does
  not depend on the other profiles. A slot is the empty object exactly when something
  fails for its own profile: an upstream call (profile, match history, ladder summary, or
  one of its ladders) or a transformation of a response (region lookup, missing career,
  stats, the player's entry of a ladder). Otherwise the slot is the full payload: the
  heading built from the profile summary, the career's two league names and the region
  name, and the details with the ladder results of every ladder membership in order, the
  stats and the history of the match-history response.
\<close>

theorem getFreshData_order_preserving_failure_isolating:
  "\<exists>rs. fst (getFreshData srv ps seg w) = Inr (ProfilesObject rs) \<and>
         length rs = length ps \<and>
         (\<forall>i < length ps.
            (\<forall>w'. fst (getProfileData srv (ps ! i) i w') = Inr (rs ! i)) \<and>
            (upstreamFailure srv (ps ! i) \<or> transformFailure srv (ps ! i) \<longrightarrow>
               rs ! i = EmptyObject) \<and>
            (\<not> upstreamFailure srv (ps ! i) \<and> \<not> transformFailure srv (ps ! i) \<longrightarrow>
               (\<exists>pd mh summary' names c sn st.
                  sas_getProfile srv (ps ! i) = Inr pd \<and>
                  sas_getLegacyMatchHistory srv (ps ! i) = Inr mh \<and>
                  sas_getLadderSummary srv (ps ! i) = Inr summary' \<and>
                  getRegionNameById srv (regionId (ps ! i)) = Inr names \<and>
                  profile_career (data pd) = Some c \<and>
                  ladderResults srv (ps ! i) summary' = Inr sn \<and>
                  getStats pd = Inr st \<and>
                  rs ! i =
                    Payload
                      \<lparr>heading_portrait =
                         \<lparr>portrait_url = summary_portrait (profile_summary (data pd)),
                          portrait_frame =
                            calculateHighestRank (current1v1LeagueName c)
                              (currentBestTeamLeagueName c)\<rparr>,
                       heading_player =
                         \<lparr>player_clan =
                            \<lparr>clan_name = summary_clanName (profile_summary (data pd)),
                             clan_tag = summary_clanTag (profile_summary (data pd))\<rparr>,
                          player_name = summary_displayName (profile_summary (data pd)),
                          player_server = element names 0\<rparr>\<rparr>
                      \<lparr>details_snapshot = sn, details_stats = st,
                       details_history = getMatchHistory mh\<rparr>)))"
proof -
  from batch_fulfils[of srv ps w] obtain rs where
    rs: "fst (Promise_all
            (map (\<lambda>(index, profile). getProfileData srv profile index) (enumerate 0 ps)) w) =
       Inr rs" "length rs = length ps"
      "\<forall>i < length ps. \<forall>w'. fst (getProfileData srv (ps ! i) i w') = Inr (rs ! i)"
    by blast
  have slot: "(\<forall>w'. fst (getProfileData srv (ps ! i) i w') = Inr (rs ! i)) \<and>
            (upstreamFailure srv (ps ! i) \<or> transformFailure srv (ps ! i) \<longrightarrow>
               rs ! i = EmptyObject) \<and>
            (\<not> upstreamFailure srv (ps ! i) \<and> \<not> transformFailure srv (ps ! i) \<longrightarrow>
               (\<exists>pd mh summary' names c sn st.
                  sas_getProfile srv (ps ! i) = Inr pd \<and>
                  sas_getLegacyMatchHistory srv (ps ! i) = Inr mh \<and>
                  sas_getLadderSummary srv (ps ! i) = Inr summary' \<and>
                  getRegionNameById srv (regionId (ps ! i)) = Inr names \<and>
                  profile_career (data pd) = Some c \<and>
                  ladderResults srv (ps ! i) summary' = Inr sn \<and>
                  getStats pd = Inr st \<and>
                  rs ! i =
                    Payload
                      \<lparr>heading_portrait =
                         \<lparr>portrait_url = summary_portrait (profile_summary (data pd)),
                          portrait_frame =
                            calculateHighestRank (current1v1LeagueName c)
                              (currentBestTeamLeagueName c)\<rparr>,
                       heading_player =
                         \<lparr>player_clan =
                            \<lparr>clan_name = summary_clanName (profile_summary (data pd)),
                             clan_tag = summary_clanTag (profile_summary (data pd))\<rparr>,
                          player_name = summary_displayName (profile_summary (data pd)),
                          player_server = element names 0\<rparr>\<rparr>
                      \<lparr>details_snapshot = sn, details_stats = st,
                       details_history = getMatchHistory mh\<rparr>))"
    if i: "i < length ps" for i
  proof -
    from rs(3) i have own: "\<And>w'. fst (getProfileData srv (ps ! i) i w') = Inr (rs ! i)"
      by simp
    have failed: "upstreamFailure srv (ps ! i) \<or> transformFailure srv (ps ! i) \<longrightarrow>
        rs ! i = EmptyObject"
      using own[of w] getProfileData_failure[of srv "ps ! i" i w] by auto
    show ?thesis
      using own failed getProfileData_payload[of srv "ps ! i" i w]
      by (simp only: own sum.inject) blast
  qed
  with rs(1,2) show ?thesis
    by (intro exI[of _ rs]) (simp add: fst_getFreshData)
qed

lemma untouched_refl: "untouched w w"
  by (simp add: untouched_def)

lemma untouched_trans: "untouched w w' \<Longrightarrow> untouched w' w'' \<Longrightarrow> untouched w w''"
  by (simp add: untouched_def)

lemma quiet_resolve: "quiet (resolve x)"
  by (simp add: quiet_def resolve_def untouched_def)

lemma quiet_settle: "quiet (settle r)"
  by (simp add: quiet_def settle_def untouched_def)

lemma quiet_sas: "quiet (sas c r)"
  by (simp add: quiet_def sas_def untouched_def)

lemma quiet_await_sleep: "quiet (await_sleep ms)"
  by (simp add: quiet_def await_sleep_def sleep_def await_def untouched_def)

lemma quiet_awaitThen:
  assumes "quiet m" "\<And>x. quiet (f x)"
  shows "quiet (awaitThen m f)"
  unfolding quiet_def
proof
  fix w
  from assms(1) have m: "untouched w (snd (m w))" by (simp add: quiet_def)
  show "untouched w (snd (awaitThen m f w))"
  proof (cases "fst (m w)")
    case (Inl e)
    with m show ?thesis by (simp add: snd_awaitThen)
  next
    case (Inr x)
    from assms(2)[of x] have "untouched (snd (m w)) (snd (f x (snd (m w))))"
      by (simp add: quiet_def)
    with m Inr show ?thesis
      by (auto simp: snd_awaitThen intro: untouched_trans)
  qed
qed

lemma quiet_Promise_all:
  assumes "\<forall>j \<in> set js. quiet j"
  shows "quiet (Promise_all js)"
  using assms
proof (induction js)
  case Nil
  show ?case by (simp add: quiet_def untouched_def)
next
  case (Cons j js)
  then have j: "\<And>w. untouched w (snd (j w))"
    and rest: "\<And>w. untouched w (snd (Promise_all js w))"
    by (simp_all add: quiet_def)
  show ?case
    unfolding quiet_def snd_Promise_all_Cons
    using j rest by (blast intro: untouched_trans)
qed

lemma quiet_getLadderData: "quiet (getLadderData srv profile l i)"
  unfolding getLadderData_def
  by (intro quiet_awaitThen quiet_await_sleep quiet_sas quiet_settle)

lemma quiet_getSnapshot: "quiet (getSnapshot srv apiData profile)"
  unfolding getSnapshot_def Let_def
  by (rule quiet_Promise_all) (auto simp: quiet_getLadderData)

lemma quiet_getProfileData_try: "quiet (getProfileData_try srv profile i)"
  unfolding getProfileData_try_def Let_def
  by (intro quiet_awaitThen quiet_await_sleep quiet_sas quiet_settle
        quiet_getSnapshot quiet_resolve)

lemma quiet_getProfileData: "quiet (getProfileData srv profile i)"
  using quiet_getProfileData_try[of srv profile i]
  by (simp add: quiet_def snd_getProfileData)

lemma quiet_batch:
  "quiet (Promise_all
            (map (\<lambda>(index, profile). getProfileData srv profile index) (enumerate 0 ps)))"
  by (rule quiet_Promise_all) (auto simp: quiet_getProfileData)

lemma logging_resolve: "logging (resolve x)"
  by (simp add: logging_def resolve_def)

lemma logging_settle: "logging (settle r)"
  by (simp add: logging_def settle_def)

lemma logging_sas: "logging (sas c r)"
  by (simp add: logging_def sas_def)

lemma logging_await_sleep: "logging (await_sleep ms)"
  by (simp add: logging_def await_sleep_def sleep_def await_def)

lemma logging_awaitThen:
  assumes "logging m" "\<And>x. logging (f x)"
  shows "logging (awaitThen m f)"
  unfolding logging_def
proof
  fix w
  from assms(1) obtain cs where cs: "sas_calls (snd (m w)) = sas_calls w @ cs"
    by (auto simp: logging_def)
  show "\<exists>cs. sas_calls (snd (awaitThen m f w)) = sas_calls w @ cs"
  proof (cases "fst (m w)")
    case (Inl e)
    with cs show ?thesis by (simp add: snd_awaitThen)
  next
    case (Inr x)
    from assms(2)[of x] obtain ds where
      "sas_calls (snd (f x (snd (m w)))) = sas_calls (snd (m w)) @ ds"
      by (auto simp: logging_def)
    with cs Inr show ?thesis by (simp add: snd_awaitThen)
  qed
qed

lemma logging_Promise_all:
  assumes "\<forall>j \<in> set js. logging j"
  shows "logging (Promise_all js)"
  using assms
proof (induction js)
  case Nil
  show ?case by (simp add: logging_def)
next
  case (Cons j js)
  then have j: "\<And>w. \<exists>cs. sas_calls (snd (j w)) = sas_calls w @ cs"
    and rest: "\<And>w. \<exists>cs. sas_calls (snd (Promise_all js w)) = sas_calls w @ cs"
    by (simp_all add: logging_def)
  show ?case
    unfolding logging_def snd_Promise_all_Cons
  proof
    fix w
    from j[of w] obtain cs where "sas_calls (snd (j w)) = sas_calls w @ cs" ..
    moreover from rest[of "snd (j w)"] obtain ds where
      "sas_calls (snd (Promise_all js (snd (j w)))) = sas_calls (snd (j w)) @ ds" ..
    ultimately show "\<exists>cs. sas_calls (snd (Promise_all js (snd (j w)))) = sas_calls w @ cs"
      by simp
  qed
qed

lemma logging_getLadderData: "logging (getLadderData srv profile l i)"
  unfolding getLadderData_def
  by (intro logging_awaitThen logging_await_sleep logging_sas logging_settle)

lemma logging_getSnapshot: "logging (getSnapshot srv apiData profile)"
  unfolding getSnapshot_def Let_def
  by (rule logging_Promise_all) (auto simp: logging_getLadderData)

lemma logging_getProfileData_try: "logging (getProfileData_try srv profile i)"
  unfolding getProfileData_try_def Let_def
  by (intro logging_awaitThen logging_await_sleep logging_sas logging_settle
        logging_getSnapshot logging_resolve)

lemma logging_getProfileData: "logging (getProfileData srv profile i)"
  using logging_getProfileData_try[of srv profile i]
  by (simp add: logging_def snd_getProfileData)

lemma loggingD: "logging m \<Longrightarrow> c \<in> snd ` set (sas_calls w) \<Longrightarrow> c \<in> snd ` set (sas_calls (snd (m w)))"
  unfolding logging_def by (metis Un_iff image_Un set_append)

lemma awaitThen_first_call:
  assumes "\<forall>w. c \<in> snd ` set (sas_calls (snd (m w)))" "\<And>x. logging (f x)"
  shows "c \<in> snd ` set (sas_calls (snd (awaitThen m f w)))"
proof (cases "fst (m w)")
  case (Inl e)
  with assms(1) show ?thesis by (simp add: snd_awaitThen)
next
  case (Inr x)
  from assms(1) have "c \<in> snd ` set (sas_calls (snd (m w)))" by simp
  from loggingD[OF assms(2)[of x] this] Inr show ?thesis
    by (simp add: snd_awaitThen)
qed

lemma getProfileData_calls_getProfile:
  "GetProfile p \<in> snd ` set (sas_calls (snd (getProfileData srv p i w)))"
  unfolding snd_getProfileData getProfileData_try_def Let_def
  by (rule awaitThen_first_call)
    (simp add: sas_def image_iff,
      intro logging_awaitThen logging_await_sleep logging_sas logging_settle
        logging_getSnapshot logging_resolve)

lemma Promise_all_keeps_calls:
  assumes "\<forall>j \<in> set js. logging j" "j \<in> set js"
    "\<forall>w. c \<in> snd ` set (sas_calls (snd (j w)))"
  shows "c \<in> snd ` set (sas_calls (snd (Promise_all js w)))"
  using assms
proof (induction js arbitrary: w)
  case Nil
  then show ?case by simp
next
  case (Cons k js)
  show ?case
  proof (cases "k = j")
    case True
    with Cons.prems(3) have "c \<in> snd ` set (sas_calls (snd (k w)))" by simp
    moreover from Cons.prems(1) have "logging (Promise_all js)"
      by (simp add: logging_Promise_all)
    ultimately show ?thesis
      unfolding snd_Promise_all_Cons by (rule loggingD[rotated])
  next
    case False
    with Cons show ?thesis
      unfolding snd_Promise_all_Cons by simp
  qed
qed

lemma batch_calls_getProfile:
  assumes "p \<in> set ps"
  shows "GetProfile p \<in> snd ` set (sas_calls (snd (Promise_all
            (map (\<lambda>(index, profile). getProfileData srv profile index) (enumerate 0 ps)) w)))"
proof -
  let ?js = "map (\<lambda>(index, profile). getProfileData srv profile index) (enumerate 0 ps)"
  from assms obtain n where n: "n < length ps" "ps ! n = p"
    by (auto simp: in_set_conv_nth)
  then have "(n, p) \<in> set (enumerate 0 ps)"
    by (auto simp: in_set_enumerate_eq)
  then have mem: "getProfileData srv p n \<in> set ?js" by force
  have log: "\<forall>j \<in> set ?js. logging j"
    by (auto simp: logging_getProfileData)
  have own: "\<forall>w. GetProfile p \<in> snd ` set (sas_calls (snd (getProfileData srv p n w)))"
    by (simp add: getProfileData_calls_getProfile)
  show ?thesis
    by (rule Promise_all_keeps_calls[OF log mem own])
qed

lemma isDataCached_miss:
  assumes "cacheActive srv" "redis_up w" "redis_lookup w seg = None"
  shows "isDataCached srv seg w = (Inr False, w)"
  using assms
  by (simp add: isDataCached_def awaitThen_def redis_get_def resolve_def truthy_def)

lemma cacheObject_writes:
  assumes "cacheActive srv" "redis_up w"
  shows "snd (cacheObject srv seg d t w) =
     w\<lparr>redis := (redis w)(seg \<mapsto> (stringify srv d, Some (now w + t * 1000))),
       redis_history := redis_history w @
         [(redis w)(seg \<mapsto> (stringify srv d, None)),
          (redis w)(seg \<mapsto> (stringify srv d, Some (now w + t * 1000)))]\<rparr>"
  using assms
  by (simp add: cacheObject_def awaitThen_def redis_set_def redis_expire_def redis_write_def
      redis_lookup_def live_def resolve_def)

lemma snd_getFreshData:
  assumes "fst (Promise_all
             (map (\<lambda>(index, profile). getProfileData srv profile index) (enumerate 0 ps)) w) =
           Inr rs"
  shows "snd (getFreshData srv ps seg w) =
     (let w1 = snd (Promise_all
                (map (\<lambda>(index, profile). getProfileData srv profile index) (enumerate 0 ps)) w)
      in if cacheActive srv then snd (cacheObject srv seg (ProfilesObject rs) (ttl srv) w1)
         else w1)"
proof (cases "Promise_all
      (map (\<lambda>(index, profile). getProfileData srv profile index) (enumerate 0 ps)) w")
  case (Pair r w1)
  with assms have "r = Inr rs" by simp
  with Pair show ?thesis by (simp add: getFreshData_def Let_def)
qed

lemma getData_miss:
  assumes "cacheActive srv" "redis_up w"
    and "redis_lookup w (''viewer-'' @ channelId params) = None"
  shows "\<exists>rs. fst (getData srv params w) = Inr (Fresh (ProfilesObject rs)) \<and>
     length rs = length (profiles params) \<and>
     (\<forall>i < length (profiles params).
        \<forall>w'. fst (getProfileData srv (profiles params ! i) i w') = Inr (rs ! i)) \<and>
     (\<forall>p \<in> set (profiles params).
        GetProfile p \<in> snd ` set (sas_calls (snd (getData srv params w)))) \<and>
     redis_history (snd (getData srv params w)) =
       redis_history w @
         [(redis w)(''viewer-'' @ channelId params \<mapsto>
             (stringify srv (ProfilesObject rs), None)),
          (redis w)(''viewer-'' @ channelId params \<mapsto>
             (stringify srv (ProfilesObject rs), Some (now w + ttl srv * 1000)))] \<and>
     redis (snd (getData srv params w)) =
       (redis w)(''viewer-'' @ channelId params \<mapsto>
          (stringify srv (ProfilesObject rs), Some (now w + ttl srv * 1000))) \<and>
     now (snd (getData srv params w)) = now w"
proof -
  let ?seg = "''viewer-'' @ channelId params"
  let ?ps = "profiles params"
  let ?js = "map (\<lambda>(index, profile). getProfileData srv profile index) (enumerate 0 ?ps)"
  let ?w1 = "snd (Promise_all ?js w)"
  from batch_fulfils[of srv ?ps w] obtain rs where
    rs: "fst (Promise_all ?js w) = Inr rs" "length rs = length ?ps"
      "\<forall>i < length ?ps. \<forall>w'. fst (getProfileData srv (?ps ! i) i w') = Inr (rs ! i)"
    by blast
  have run: "getData srv params w =
      awaitThen (getFreshData srv ?ps ?seg) (\<lambda>data'. resolve (Fresh data')) w"
    using isDataCached_miss[OF assms]
    by (simp add: getData_def Let_def awaitThen_def)
  have res: "fst (getData srv params w) = Inr (Fresh (ProfilesObject rs))"
    using rs(1) by (simp add: run fst_job fst_getFreshData)
  have fresh: "fst (getFreshData srv ?ps ?seg w) = Inr (ProfilesObject rs)"
    using rs(1) by (simp add: fst_getFreshData)
  have frame: "untouched w ?w1"
    using quiet_batch[of srv ?ps] by (simp add: quiet_def)
  with assms(2) have up: "redis_up ?w1" by (simp add: untouched_def)
  have world: "snd (getData srv params w) =
      snd (cacheObject srv ?seg (ProfilesObject rs) (ttl srv) ?w1)"
    using fresh assms(1)
    by (simp add: run snd_awaitThen resolve_def snd_getFreshData[OF rs(1)])
  have calls: "\<forall>p \<in> set ?ps. GetProfile p \<in> snd ` set (sas_calls (snd (getData srv params w)))"
    using batch_calls_getProfile[of _ ?ps srv w]
    by (simp add: world cacheObject_writes[OF assms(1) up])
  show ?thesis
    using res rs(2,3) calls frame
    by (intro exI[of _ rs]) (simp add: world cacheObject_writes[OF assms(1) up] untouched_def)
qed

lemma sample_player_simps:
  "profileId (sample_player n) = n" "regionId (sample_player n) = 2"
  by (simp_all add: sample_player_def)

lemma sample_heading: "\<not> isl (getHeading sample_profileData (Some ''eu''))"
  by code_simp

lemma sample_stats: "\<not> isl (getStats sample_profileData)"
  by code_simp

lemma sample_ladder_info:
  "\<not> isl (getPlayerLadderInfo (sample_ladder (sample_player 1)) 1)"
  "\<not> isl (getPlayerLadderInfo (sample_ladder (sample_player 3)) 3)"
  by code_simp+

lemmas run_defs = getProfileData_def getProfileData_try_def getSnapshot_def getLadderData_def
  awaitThen_def sas_def await_sleep_def sleep_def await_def settle_def resolve_def andThen_def
  element_def enumerate_eq_zip Let_def

lemma sample_run:
  assumes "n = 1 \<or> n = 3"
  shows "\<exists>h d. getProfileData sample_server (sample_player n) k w =
     (Inr (Payload h d),
      w\<lparr>sas_calls := sas_calls w @
           [(now w, GetProfile (sample_player n)),
            (now w, GetLegacyMatchHistory (sample_player n)),
            (now w, GetLadderSummary (sample_player n)),
            (now w, GetLadder (sample_player n) 7)],
        log_info := log_info w @
           [Sleeping ((k + 1) * 1000), Sleeping ((k + 1) * 1000), Sleeping ((k + 1) * 1000),
            Sleeping 1000],
        timers := timers w @
           [now w + (k + 1) * 1000, now w + (k + 1) * 1000, now w + (k + 1) * 1000,
            now w + 1000]\<rparr>)"
proof -
  from sample_heading obtain h where h: "getHeading sample_profileData (Some ''eu'') = Inr h"
    by (auto simp: isl_def) (metis sum.exhaust)
  from sample_stats obtain st where st: "getStats sample_profileData = Inr st"
    by (auto simp: isl_def) (metis sum.exhaust)
  from sample_ladder_info assms obtain l where
    l: "getPlayerLadderInfo (sample_ladder (sample_player n)) n = Inr l"
    by (auto simp: isl_def) (metis sum.exhaust)+
  from assms have n: "n \<noteq> 2" by auto
  show ?thesis
    using n by (simp add: run_defs sample_server_def sample_player_simps h st l)
qed

lemma sample_miss:
  "cacheActive sample_server" "redis_up sample_world"
  "redis_lookup sample_world (''viewer-'' @ channelId \<lparr>channelId = ''9'', profiles = ps, refresh = r\<rparr>) = None"
  by (simp_all add: sample_server_def sample_world_def redis_lookup_def)

section \<open>Properties of the persistent store plugin\<close>

lemma slice_prefix: "0 \<le> n \<Longrightarrow> slice xs 0 n = take (nat n) xs"
  by (simp add: slice_def Let_def min_def)

lemma find_upsert:
  "find (\<lambda>d. document_channelId d = cid) (upsert cid ps ds) \<noteq> None \<and>
   document_channelId (the (find (\<lambda>d. document_channelId d = cid) (upsert cid ps ds))) = cid \<and>
   document_profiles (the (find (\<lambda>d. document_channelId d = cid) (upsert cid ps ds))) = ps"
  by (induction ds) auto

text \<open>
  C9. \<open>save\<close> always resolves to a boolean: true exactly when the store accepts the
  update, and false, with the store unchanged, when it fails. With a non-negative
  configured maximum, a successful save stores the first \<open>maxPlayerProfileCount\<close>
  profiles, so at most that many, and \<open>get\<close> returns them afterwards. \<open>get\<close> always
  resolves: to status 400 when the store fails, to status 404 when the channel has no
  document, and to status 200 with the channel id and its profiles when it has one.
\<close>

theorem store_save_get_contract:
  "(\<exists>b. fst (save opts config c) = Inr b) \<and>
   (fst (save opts config c) = Inr True \<longleftrightarrow>
      reachable c \<and> validates c (slice (config_data config) 0 (maxPlayerProfileCount opts))) \<and>
   (fst (save opts config c) = Inr False \<longrightarrow> snd (save opts config c) = c) \<and>
   (fst (save opts config c) = Inr True \<and> 0 \<le> maxPlayerProfileCount opts \<longrightarrow>
      get (config_channelId config) (snd (save opts config c)) =
        Inr \<lparr>status = 200, response_channelId = Some (config_channelId config),
             response_profiles =
               Some (take (nat (maxPlayerProfileCount opts)) (config_data config)),
             message = None\<rparr> \<and>
      int (length (take (nat (maxPlayerProfileCount opts)) (config_data config))) \<le>
        maxPlayerProfileCount opts) \<and>
   (\<not> reachable c \<longrightarrow>
      get cid c = Inr \<lparr>status = 400, response_channelId = None, response_profiles = None,
                       message = None\<rparr>) \<and>
   (reachable c \<and> (\<forall>d \<in> set (documents c). document_channelId d \<noteq> cid) \<longrightarrow>
      get cid c = Inr \<lparr>status = 404, response_channelId = None, response_profiles = None,
                       message = Some ''No config found''\<rparr>) \<and>
   (reachable c \<and> (\<exists>d \<in> set (documents c). document_channelId d = cid) \<longrightarrow>
      (\<exists>ps. get cid c = Inr \<lparr>status = 200, response_channelId = Some cid,
                               response_profiles = Some ps, message = None\<rparr>))"
proof -
  let ?ps = "slice (config_data config) 0 (maxPlayerProfileCount opts)"
  have total: "\<exists>b. fst (save opts config c) = Inr b"
    by (auto simp: save_def ChannelConfig_findOneAndUpdate_def)
  have ok: "fst (save opts config c) = Inr True \<longleftrightarrow> reachable c \<and> validates c ?ps"
    by (simp add: save_def ChannelConfig_findOneAndUpdate_def)
  have failed: "fst (save opts config c) = Inr False \<longrightarrow> snd (save opts config c) = c"
    by (simp add: save_def ChannelConfig_findOneAndUpdate_def)
  have stored: "fst (save opts config c) = Inr True \<and> 0 \<le> maxPlayerProfileCount opts \<longrightarrow>
      get (config_channelId config) (snd (save opts config c)) =
        Inr \<lparr>status = 200, response_channelId = Some (config_channelId config),
             response_profiles =
               Some (take (nat (maxPlayerProfileCount opts)) (config_data config)),
             message = None\<rparr> \<and>
      int (length (take (nat (maxPlayerProfileCount opts)) (config_data config))) \<le>
        maxPlayerProfileCount opts"
    using find_upsert[of "config_channelId config" ?ps "documents c"]
    by (auto simp: save_def ChannelConfig_findOneAndUpdate_def get_def ChannelConfig_findOne_def
        slice_prefix)
  have down: "\<not> reachable c \<longrightarrow>
      get cid c = Inr \<lparr>status = 400, response_channelId = None, response_profiles = None,
                       message = None\<rparr>"
    by (simp add: get_def ChannelConfig_findOne_def)
  have none: "reachable c \<and> (\<forall>d \<in> set (documents c). document_channelId d \<noteq> cid) \<longrightarrow>
      get cid c = Inr \<lparr>status = 404, response_channelId = None, response_profiles = None,
                       message = Some ''No config found''\<rparr>"
  proof (intro impI)
    assume a: "reachable c \<and> (\<forall>d \<in> set (documents c). document_channelId d \<noteq> cid)"
    then have "find (\<lambda>d. document_channelId d = cid) (documents c) = None"
      by (simp add: find_None_iff)
    with a show "get cid c = Inr \<lparr>status = 404, response_channelId = None,
        response_profiles = None, message = Some ''No config found''\<rparr>"
      by (simp add: get_def ChannelConfig_findOne_def)
  qed
  have some: "reachable c \<and> (\<exists>d \<in> set (documents c). document_channelId d = cid) \<longrightarrow>
      (\<exists>ps. get cid c = Inr \<lparr>status = 200, response_channelId = Some cid,
                               response_profiles = Some ps, message = None\<rparr>)"
  proof (intro impI)
    assume a: "reachable c \<and> (\<exists>d \<in> set (documents c). document_channelId d = cid)"
    then have "find (\<lambda>d. document_channelId d = cid) (documents c) \<noteq> None"
      by (auto simp: find_None_iff)
    then obtain d where d: "find (\<lambda>d. document_channelId d = cid) (documents c) = Some d"
      by auto
    then have "document_channelId d = cid"
      by (auto simp: find_Some_iff)
    with a d show "\<exists>ps. get cid c = Inr \<lparr>status = 200, response_channelId = Some cid,
        response_profiles = Some ps, message = None\<rparr>"
      by (simp add: get_def ChannelConfig_findOne_def)
  qed
  from total ok failed stored down none some show ?thesis by blast
qed

text \<open>
  C1 fails on the code. For the second profile of a batch (index 1) every paced step
  should be preceded by a suspension of 2000 ms. \<open>sleep\<close> returns \<open>undefined\<close>, so
  awaiting it leaves the clock where it was: all four upstream calls of the pipeline are
  issued at time 0, while the timers that were to delay them fire at 2000 and 1000. The
  sleep before the ladder fetch is requested with the position of the ladder in the
  membership list (0, hence 1000 ms), not with the index of the profile.
\<close>

theorem getProfileData_sleep_returns_undefined:
  "fst (sleep 2000 sample_world) = Undefined \<and>
   snd (await (fst (sleep 2000 sample_world)) sample_world) = sample_world \<and>
   sas_calls (snd (getProfileData sample_server (sample_player 1) 1 sample_world)) =
     [(0, GetProfile (sample_player 1)), (0, GetLegacyMatchHistory (sample_player 1)),
      (0, GetLadderSummary (sample_player 1)), (0, GetLadder (sample_player 1) 7)] \<and>
   log_info (snd (getProfileData sample_server (sample_player 1) 1 sample_world)) =
     [Sleeping 2000, Sleeping 2000, Sleeping 2000, Sleeping 1000] \<and>
   timers (snd (getProfileData sample_server (sample_player 1) 1 sample_world)) =
     [2000, 2000, 2000, 1000] \<and>
   now (snd (getProfileData sample_server (sample_player 1) 1 sample_world)) = 0"
proof -
  from sample_run[of 1 1 sample_world] obtain h d where
    "getProfileData sample_server (sample_player 1) 1 sample_world =
     (Inr (Payload h d),
      sample_world\<lparr>sas_calls := sas_calls sample_world @
           [(now sample_world, GetProfile (sample_player 1)),
            (now sample_world, GetLegacyMatchHistory (sample_player 1)),
            (now sample_world, GetLadderSummary (sample_player 1)),
            (now sample_world, GetLadder (sample_player 1) 7)],
        log_info := log_info sample_world @
           [Sleeping ((1 + 1) * 1000), Sleeping ((1 + 1) * 1000), Sleeping ((1 + 1) * 1000),
            Sleeping 1000],
        timers := timers sample_world @
           [now sample_world + (1 + 1) * 1000, now sample_world + (1 + 1) * 1000,
            now sample_world + (1 + 1) * 1000, now sample_world + 1000]\<rparr>)"
    by auto
  then show ?thesis
    by (simp add: sample_world_def sleep_def await_def)
qed

text \<open>
  The cache-hit theorem on the sample server, with an unexpired entry for channel 9.
\<close>

theorem getData_cache_hit_witness:
  "cacheActive sample_server \<and> redis_up sample_cached_world \<and>
   redis_lookup sample_cached_world ''viewer-9'' = Some ''{\"profiles\":[]}'' \<and>
   JSON_parse sample_server (Some ''{\"profiles\":[]}'') = Inr ''{\"profiles\":[]}'' \<and>
   getData sample_server
     \<lparr>channelId = ''9'', profiles = [sample_player 1], refresh = None\<rparr> sample_cached_world =
     (Inr (Decoded ''{\"profiles\":[]}''), sample_cached_world)"
proof -
  have a: "cacheActive sample_server" by (simp add: sample_server_def)
  have b: "redis_up sample_cached_world"
    by (simp add: sample_cached_world_def sample_world_def)
  have c: "redis_lookup sample_cached_world
      (''viewer-'' @ channelId \<lparr>channelId = ''9'', profiles = [sample_player 1], refresh = None\<rparr>) =
      Some ''{\"profiles\":[]}''"
    by (simp add: sample_cached_world_def sample_world_def redis_lookup_def live_def)
  have d: "JSON_parse sample_server (Some ''{\"profiles\":[]}'') = Inr ''{\"profiles\":[]}''"
    by (simp add: JSON_parse_def sample_server_def)
  from getData_cache_hit[OF a b c d] a b c d show ?thesis by simp
qed

text \<open>
  C5, as the code has it. With the cache backend active and answering and no visible
  entry under \<open>viewer-{channelId}\<close>, \<open>getData\<close> runs the batch assembly over the
  supplied profiles (every profile is looked up upstream, and the result holds one slot
  per profile) and returns it. The encoded result is written with a \<open>SET\<close> command,
  which leaves the entry without an expiry time, and the configured TTL is applied by a
  separate \<open>EXPIRE\<close> command after it. After both commands the entry carries the expiry
  time \<open>now + ttl\<close>, and is visible when the TTL is positive.
\<close>

theorem getData_miss_sets_then_expires:
  assumes "cacheActive srv" and "redis_up w"
    and "redis_lookup w (''viewer-'' @ channelId params) = None"
  shows "\<exists>rs. fst (getData srv params w) = Inr (Fresh (ProfilesObject rs)) \<and>
     length rs = length (profiles params) \<and>
     (\<forall>i < length (profiles params).
        \<forall>w'. fst (getProfileData srv (profiles params ! i) i w') = Inr (rs ! i)) \<and>
     (\<forall>p \<in> set (profiles params).
        GetProfile p \<in> snd ` set (sas_calls (snd (getData srv params w)))) \<and>
     redis_history (snd (getData srv params w)) =
       redis_history w @
         [(redis w)(''viewer-'' @ channelId params \<mapsto>
             (stringify srv (ProfilesObject rs), None)),
          (redis w)(''viewer-'' @ channelId params \<mapsto>
             (stringify srv (ProfilesObject rs), Some (now w + ttl srv * 1000)))] \<and>
     redis (snd (getData srv params w)) (''viewer-'' @ channelId params) =
       Some (stringify srv (ProfilesObject rs), Some (now w + ttl srv * 1000)) \<and>
     (0 < ttl srv \<longrightarrow>
        redis_lookup (snd (getData srv params w)) (''viewer-'' @ channelId params) =
          Some (stringify srv (ProfilesObject rs)))"
proof -
  from getData_miss[OF assms] obtain rs where
    rs: "fst (getData srv params w) = Inr (Fresh (ProfilesObject rs))"
      "length rs = length (profiles params)"
      "\<forall>i < length (profiles params).
        \<forall>w'. fst (getProfileData srv (profiles params ! i) i w') = Inr (rs ! i)"
      "\<forall>p \<in> set (profiles params).
        GetProfile p \<in> snd ` set (sas_calls (snd (getData srv params w)))"
      "redis_history (snd (getData srv params w)) =
       redis_history w @
         [(redis w)(''viewer-'' @ channelId params \<mapsto>
             (stringify srv (ProfilesObject rs), None)),
          (redis w)(''viewer-'' @ channelId params \<mapsto>
             (stringify srv (ProfilesObject rs), Some (now w + ttl srv * 1000)))]"
      "redis (snd (getData srv params w)) =
       (redis w)(''viewer-'' @ channelId params \<mapsto>
          (stringify srv (ProfilesObject rs), Some (now w + ttl srv * 1000)))"
      "now (snd (getData srv params w)) = now w"
    by blast
  from rs(6,7) have "0 < ttl srv \<longrightarrow>
        redis_lookup (snd (getData srv params w)) (''viewer-'' @ channelId params) =
          Some (stringify srv (ProfilesObject rs))"
    by (simp add: redis_lookup_def live_def)
  with rs show ?thesis
    by (intro exI[of _ rs]) simp
qed

text \<open>
  The cache-miss theorem on the sample server with an empty cache and one profile.
\<close>

theorem getData_miss_sets_then_expires_witness:
  "cacheActive sample_server \<and> redis_up sample_world \<and>
   redis_lookup sample_world ''viewer-9'' = None \<and>
   (\<exists>rs. fst (getData sample_server
              \<lparr>channelId = ''9'', profiles = [sample_player 1], refresh = None\<rparr>
              sample_world) = Inr (Fresh (ProfilesObject rs)) \<and>
          length rs = 1 \<and>
          redis_lookup (snd (getData sample_server
              \<lparr>channelId = ''9'', profiles = [sample_player 1], refresh = None\<rparr>
              sample_world)) ''viewer-9'' = Some (stringify sample_server (ProfilesObject rs)))"
proof -
  have t: "0 < ttl sample_server" by (simp add: sample_server_def)
  from getData_miss_sets_then_expires[OF sample_miss(1) sample_miss(2)
      sample_miss(3)[of "[sample_player 1]" None]]
  obtain rs where
    "fst (getData sample_server
              \<lparr>channelId = ''9'', profiles = [sample_player 1], refresh = None\<rparr>
              sample_world) = Inr (Fresh (ProfilesObject rs))"
    "length rs = 1"
    "0 < ttl sample_server \<longrightarrow> redis_lookup (snd (getData sample_server
              \<lparr>channelId = ''9'', profiles = [sample_player 1], refresh = None\<rparr>
              sample_world)) ''viewer-9'' = Some (stringify sample_server (ProfilesObject rs))"
    by auto
  with t sample_miss(1,2) sample_miss(3)[of "[]" None] show ?thesis by auto
qed

text \<open>
  C5 as stated fails: on the sample server with an empty cache, the first store state a
  concurrent reader can observe after the write of \<open>getData\<close> began holds the entry
  \<open>viewer-9\<close> with no expiry time.
\<close>

theorem getData_entry_without_ttl_counterexample:
  "cacheActive sample_server \<and> redis_up sample_world \<and>
   redis_lookup sample_world ''viewer-9'' = None \<and>
   map_option snd
     ((redis_history (snd (getData sample_server
          \<lparr>channelId = ''9'', profiles = [sample_player 1], refresh = None\<rparr>
          sample_world)) ! 0) ''viewer-9'') = Some None"
proof -
  from getData_miss[OF sample_miss(1) sample_miss(2) sample_miss(3)[of "[sample_player 1]" None]]
  obtain rs where
    "redis_history (snd (getData sample_server
          \<lparr>channelId = ''9'', profiles = [sample_player 1], refresh = None\<rparr> sample_world)) =
     redis_history sample_world @
       [(redis sample_world)(''viewer-9'' \<mapsto> (stringify sample_server (ProfilesObject rs), None)),
        (redis sample_world)(''viewer-9'' \<mapsto>
           (stringify sample_server (ProfilesObject rs), Some (now sample_world + ttl sample_server * 1000)))]"
    by auto
  moreover have "redis_history sample_world = []" by (simp add: sample_world_def)
  ultimately show ?thesis
    using sample_miss(1,2) sample_miss(3)[of "[]" None] by simp
qed

lemma sample_no_failure:
  "\<not> upstreamFailure sample_server (sample_player 1)"
  "\<not> transformFailure sample_server (sample_player 1)"
  "\<not> upstreamFailure sample_server (sample_player 3)"
  "\<not> transformFailure sample_server (sample_player 3)"
  "upstreamFailure sample_server (sample_player 2)"
  by code_simp+

lemma sample_values:
  "calculateHighestRank (Some ''Diamond'') (Some ''Master'') = ''master''"
  "getStats sample_profileData =
     Inr \<lparr>stats_totalCareerGames = 100, stats_totalRankedGamesThisSeason = Present 10,
          stats_seasonWinRatio = Finite 50, stats_highestSoloRank = ''master'',
          stats_highestTeamRank = []\<rparr>"
  "getMatchHistory sample_matchHistory =
     [\<lparr>mapName = ''X'', mode = ''1v1'', result = ''win'', date = 1000000\<rparr>]"
  "ladderResults sample_server (sample_player 1)
     \<lparr>data = \<lparr>allLadderMemberships = [\<lparr>ladderId = 7\<rparr>]\<rparr>\<rparr> =
     Inr [\<lparr>result_mode = ''1v1'', result_rank = ''diamond'', result_wins = 7,
            result_losses = 4, result_race = ''zerg'', result_mmr = 4100,
            result_divisionRank = 12, result_teamMembers = [''Player'']\<rparr>]"
  "ladderResults sample_server (sample_player 3)
     \<lparr>data = \<lparr>allLadderMemberships = [\<lparr>ladderId = 7\<rparr>]\<rparr>\<rparr> =
     Inr [\<lparr>result_mode = ''1v1'', result_rank = ''diamond'', result_wins = 7,
            result_losses = 4, result_race = ''zerg'', result_mmr = 4100,
            result_divisionRank = 12, result_teamMembers = [''Player'']\<rparr>]"
  by code_simp+

text \<open>
  The batch theorem on the sample server, whose upstream client fails the profile lookup
  of player 2: in a batch of three the middle slot is the empty object and the other two
  hold the full sample payload.
\<close>

theorem getFreshData_order_preserving_failure_isolating_witness:
  "upstreamFailure sample_server (sample_player 2) \<and>
   \<not> upstreamFailure sample_server (sample_player 1) \<and>
   \<not> transformFailure sample_server (sample_player 1) \<and>
   \<not> upstreamFailure sample_server (sample_player 3) \<and>
   \<not> transformFailure sample_server (sample_player 3) \<and>
   fst (getFreshData sample_server [sample_player 1, sample_player 2, sample_player 3]
          ''viewer-9'' sample_world) =
     Inr (ProfilesObject [sample_payload, EmptyObject, sample_payload])"
proof -
  let ?ps = "[sample_player 1, sample_player 2, sample_player 3]"
  note ok = sample_no_failure
  from getFreshData_order_preserving_failure_isolating
    [of sample_server ?ps "''viewer-9''" sample_world]
  obtain rs where rs:
    "fst (getFreshData sample_server ?ps ''viewer-9'' sample_world) = Inr (ProfilesObject rs)"
    "length rs = 3"
    and slots: "\<forall>i < 3.
        (upstreamFailure sample_server (?ps ! i) \<or> transformFailure sample_server (?ps ! i) \<longrightarrow>
           rs ! i = EmptyObject) \<and>
        (\<not> upstreamFailure sample_server (?ps ! i) \<and>
         \<not> transformFailure sample_server (?ps ! i) \<longrightarrow>
           (\<exists>pd mh summary' names c sn st.
              sas_getProfile sample_server (?ps ! i) = Inr pd \<and>
              sas_getLegacyMatchHistory sample_server (?ps ! i) = Inr mh \<and>
              sas_getLadderSummary sample_server (?ps ! i) = Inr summary' \<and>
              getRegionNameById sample_server (regionId (?ps ! i)) = Inr names \<and>
              profile_career (data pd) = Some c \<and>
              ladderResults sample_server (?ps ! i) summary' = Inr sn \<and>
              getStats pd = Inr st \<and>
              rs ! i =
                Payload
                  \<lparr>heading_portrait =
                     \<lparr>portrait_url = summary_portrait (profile_summary (data pd)),
                      portrait_frame =
                        calculateHighestRank (current1v1LeagueName c)
                          (currentBestTeamLeagueName c)\<rparr>,
                   heading_player =
                     \<lparr>player_clan =
                        \<lparr>clan_name = summary_clanName (profile_summary (data pd)),
                         clan_tag = summary_clanTag (profile_summary (data pd))\<rparr>,
                      player_name = summary_displayName (profile_summary (data pd)),
                      player_server = element names 0\<rparr>\<rparr>
                  \<lparr>details_snapshot = sn, details_stats = st,
                   details_history = getMatchHistory mh\<rparr>))"
    by auto
  have payload: "rs ! i = sample_payload"
    if "i < 3" "?ps ! i = sample_player n" "n = 1 \<or> n = 3" for i n
  proof -
    from that ok have "\<not> upstreamFailure sample_server (?ps ! i) \<and>
         \<not> transformFailure sample_server (?ps ! i)"
      by auto
    with slots that(1) obtain pd mh summary' names c sn st where
      v: "sas_getProfile sample_server (?ps ! i) = Inr pd"
        "sas_getLegacyMatchHistory sample_server (?ps ! i) = Inr mh"
        "sas_getLadderSummary sample_server (?ps ! i) = Inr summary'"
        "getRegionNameById sample_server (regionId (?ps ! i)) = Inr names"
        "profile_career (data pd) = Some c"
        "ladderResults sample_server (?ps ! i) summary' = Inr sn"
        "getStats pd = Inr st"
      and slot: "rs ! i =
                Payload
                  \<lparr>heading_portrait =
                     \<lparr>portrait_url = summary_portrait (profile_summary (data pd)),
                      portrait_frame =
                        calculateHighestRank (current1v1LeagueName c)
                          (currentBestTeamLeagueName c)\<rparr>,
                   heading_player =
                     \<lparr>player_clan =
                        \<lparr>clan_name = summary_clanName (profile_summary (data pd)),
                         clan_tag = summary_clanTag (profile_summary (data pd))\<rparr>,
                      player_name = summary_displayName (profile_summary (data pd)),
                      player_server = element names 0\<rparr>\<rparr>
                  \<lparr>details_snapshot = sn, details_stats = st,
                   details_history = getMatchHistory mh\<rparr>"
      by blast
    from that(2,3) have n: "profileId (?ps ! i) \<noteq> 2"
      by (auto simp: sample_player_def)
    from v(1) n have pd: "pd = sample_profileData"
      by (simp add: sample_server_def)
    from v(2) have mh: "mh = sample_matchHistory"
      by (simp add: sample_server_def)
    from v(3) have su: "summary' = \<lparr>data = \<lparr>allLadderMemberships = [\<lparr>ladderId = 7\<rparr>]\<rparr>\<rparr>"
      by (simp add: sample_server_def)
    from v(4) have names: "names = [''eu'']"
      by (simp add: sample_server_def)
    from v(5) pd have c: "c = \<lparr>current1v1LeagueName = Some ''Diamond'',
                 currentBestTeamLeagueName = Some ''Master'',
                 totalCareerGames = Some 100,
                 best1v1Finish = Some \<lparr>leagueName = Some ''Master''\<rparr>,
                 bestTeamFinish = None\<rparr>"
      by (simp add: sample_profileData_def)
    from v(7) pd have st: "st = \<lparr>stats_totalCareerGames = 100,
          stats_totalRankedGamesThisSeason = Present 10,
          stats_seasonWinRatio = Finite 50, stats_highestSoloRank = ''master'',
          stats_highestTeamRank = []\<rparr>"
      by (simp add: sample_values(2))
    from v(6) su that(2,3) have sn: "sn = [\<lparr>result_mode = ''1v1'', result_rank = ''diamond'',
            result_wins = 7, result_losses = 4, result_race = ''zerg'', result_mmr = 4100,
            result_divisionRank = 12, result_teamMembers = [''Player'']\<rparr>]"
      by (auto simp: sample_values(4,5))
    show ?thesis
      unfolding slot pd mh names c st sn sample_payload_def
      by (simp add: sample_values(1,3) sample_profileData_def element_def)
  qed
  have s0: "rs ! 0 = sample_payload" by (rule payload[of 0 1]) simp_all
  have s2: "rs ! 2 = sample_payload" by (rule payload[of 2 3]) simp_all
  from slots[THEN spec, of 1] ok(5) have s1: "rs ! 1 = EmptyObject" by simp
  from rs(2) s0 s1 s2 have "rs = [sample_payload, EmptyObject, sample_payload]"
    by (auto simp: list_eq_iff_nth_eq less_Suc_eq numeral_3_eq_3 numeral_2_eq_2)
  with rs(1) ok show ?thesis by simp
qed

text \<open>
  The store contract on a sample collection: three profiles saved with a maximum of two,
  a lookup before the save, and both operations on an unreachable store.
\<close>

theorem store_save_get_contract_witness:
  "fst (save sample_options sample_config sample_collection) = Inr True \<and>
   0 \<le> maxPlayerProfileCount sample_options \<and>
   get 7 (snd (save sample_options sample_config sample_collection)) =
     Inr \<lparr>status = 200, response_channelId = Some 7,
          response_profiles = Some [sample_player 1, sample_player 2], message = None\<rparr> \<and>
   reachable sample_collection \<and>
   documents sample_collection = [] \<and>
   get 7 sample_collection =
     Inr \<lparr>status = 404, response_channelId = None, response_profiles = None,
          message = Some ''No config found''\<rparr> \<and>
   \<not> reachable (sample_collection\<lparr>reachable := False\<rparr>) \<and>
   fst (save sample_options sample_config (sample_collection\<lparr>reachable := False\<rparr>)) =
     Inr False \<and>
   get 7 (sample_collection\<lparr>reachable := False\<rparr>) =
     Inr \<lparr>status = 400, response_channelId = None, response_profiles = None, message = None\<rparr>"
proof -
  have up: "reachable sample_collection"
    "validates sample_collection
       (slice (config_data sample_config) 0 (maxPlayerProfileCount sample_options))"
    "\<forall>d \<in> set (documents sample_collection). document_channelId d \<noteq> 7"
    "documents sample_collection = []"
    by (simp_all add: sample_collection_def)
  have opts: "0 \<le> maxPlayerProfileCount sample_options"
    "maxPlayerProfileCount sample_options = 2"
    by (simp_all add: sample_options_def)
  have cfg: "config_channelId sample_config = 7"
    "config_data sample_config = [sample_player 1, sample_player 2, sample_player 3]"
    by (simp_all add: sample_config_def)
  have down: "\<not> reachable (sample_collection\<lparr>reachable := False\<rparr>)"
    by simp
  from store_save_get_contract[of sample_options sample_config sample_collection 7]
    store_save_get_contract[of sample_options sample_config
      "sample_collection\<lparr>reachable := False\<rparr>" 7]
    up opts cfg down
  show ?thesis by auto
qed

text \<open>
  C7. The transformed history is the list of the entries whose type is not "Custom", in
  order, each mapped to its record: map name, mode, lower-cased decision, and the date
  multiplied by 1000. No record has mode "Custom", every other entry is represented, and
  the entries left out are exactly the "Custom" ones.
\<close>

theorem getMatchHistory_filters_and_normalizes:
  "getMatchHistory apiData =
     map matchRecord_of
       (filter (\<lambda>m. match_type m \<noteq> ''Custom'') (matches (data apiData))) \<and>
   (\<forall>r \<in> set (getMatchHistory apiData). mode r \<noteq> ''Custom'') \<and>
   (\<forall>m \<in> set (matches (data apiData)).
      match_type m \<noteq> ''Custom'' \<longrightarrow> matchRecord_of m \<in> set (getMatchHistory apiData)) \<and>
   length (getMatchHistory apiData) +
     length (filter (\<lambda>m. match_type m = ''Custom'') (matches (data apiData))) =
     length (matches (data apiData))"
proof -
  let ?ms = "matches (data apiData)"
  have eq: "getMatchHistory apiData =
      map matchRecord_of (filter (\<lambda>m. match_type m \<noteq> ''Custom'') ?ms)"
    by (simp add: getMatchHistory_def matchRecord_of_def Let_def)
  have len: "length (filter (\<lambda>m. match_type m \<noteq> ''Custom'') ?ms) +
      length (filter (\<lambda>m. match_type m = ''Custom'') ?ms) = length ?ms"
    using sum_length_filter_compl[of "\<lambda>m. match_type m \<noteq> ''Custom''" ?ms] by simp
  show ?thesis
    unfolding eq using len by (auto simp: matchRecord_of_def)
qed

text \<open>
  The example of the specification: a "Custom" entry and a won 1v1 game on map X.
\<close>

theorem getMatchHistory_filters_and_normalizes_witness:
  "getMatchHistory
     \<lparr>data = \<lparr>matches =
        [\<lparr>match_map = ''Y'', match_type = ''Custom'', match_decision = ''Loss'',
          match_date = 900\<rparr>,
         \<lparr>match_map = ''X'', match_type = ''1v1'', match_decision = ''Win'',
          match_date = 1000\<rparr>]\<rparr>\<rparr> =
   [\<lparr>mapName = ''X'', mode = ''1v1'', result = ''win'', date = 1000000\<rparr>]"
proof -
  have low: "toLowerCase ''Win'' = ''win''" by code_simp
  show ?thesis
    using getMatchHistory_filters_and_normalizes
      [of "\<lparr>data = \<lparr>matches =
        [\<lparr>match_map = ''Y'', match_type = ''Custom'', match_decision = ''Loss'',
          match_date = 900\<rparr>,
         \<lparr>match_map = ''X'', match_type = ''1v1'', match_decision = ''Win'',
          match_date = 1000\<rparr>]\<rparr>\<rparr>"] low
    by (simp add: matchRecord_of_def)
qed

text \<open>
  C2 fails on the code. With total wins 3 + 2 and 10 ranked games the ratio is 50. With
  the same wins and 0 ranked games the division yields \<open>Infinity\<close>, which
  \<open>Math.round\<close> keeps and which is truthy, so \<open>|| 0\<close> does not replace it: the stats
  field \<open>seasonWinRatio\<close> is \<open>Infinity\<close>, not 0.
\<close>

theorem getStats_zero_denominator_infinity:
  "calculateSeasonWinRatio
     (Some \<lparr>seasonSnapshot = [(''a'', \<lparr>totalWins = 3\<rparr>), (''b'', \<lparr>totalWins = 2\<rparr>)],
            totalRankedSeasonGamesPlayed = Present 10\<rparr>) = Inr (Finite 50) \<and>
   calculateSeasonWinRatio
     (Some \<lparr>seasonSnapshot = [(''a'', \<lparr>totalWins = 3\<rparr>), (''b'', \<lparr>totalWins = 2\<rparr>)],
            totalRankedSeasonGamesPlayed = Present 0\<rparr>) = Inr PosInfinity \<and>
   map_sum id stats_seasonWinRatio
     (getStats \<lparr>data = \<lparr>profile_summary = profile_summary (data sample_profileData),
                        profile_career = None,
                        profile_snapshot =
                          Some \<lparr>seasonSnapshot =
                                  [(''a'', \<lparr>totalWins = 3\<rparr>), (''b'', \<lparr>totalWins = 2\<rparr>)],
                                totalRankedSeasonGamesPlayed = Present 0\<rparr>\<rparr>\<rparr>) =
     Inr PosInfinity"
  by code_simp

text \<open>
  The refresh theorem on the sample server: a request with \<open>refresh: true\<close> against
  the same request without the field.
\<close>

theorem getData_ignores_refresh_witness:
  "getData sample_server \<lparr>channelId = ''9'', profiles = [sample_player 1], refresh = Some True\<rparr>
     sample_world =
   getData sample_server \<lparr>channelId = ''9'', profiles = [sample_player 1], refresh = None\<rparr>
     sample_world"
  using getData_ignores_refresh
    [where srv = sample_server and r = "Some True" and w = sample_world and
      params = "\<lparr>channelId = ''9'', profiles = [sample_player 1], refresh = None\<rparr>"]
  by simp

text \<open>
  The batch of three profiles on the sample server resolves to an object with three
  results.
\<close>

theorem getFreshData_never_empty_array_witness:
  "\<exists>rs. fst (getFreshData sample_server [sample_player 1, sample_player 2, sample_player 3]
               ''viewer-9'' sample_world) = Inr (ProfilesObject rs) \<and>
        length rs = 3"
proof -
  from getFreshData_never_empty_array
    [of sample_server "[sample_player 1, sample_player 2, sample_player 3]" sample_world
      "''viewer-9''"]
  have "\<exists>rs. fst (getFreshData sample_server
                   [sample_player 1, sample_player 2, sample_player 3]
                   ''viewer-9'' sample_world) = Inr (ProfilesObject rs) \<and>
              length rs = length [sample_player 1, sample_player 2, sample_player 3]"
    by blast
  then show ?thesis by (simp add: numeral_3_eq_3)
qed

end
